theory Spec2Isabelle
  imports Complex_Main
begin

section \<open>QR-session attendance: tokens, ledger and redemption handlers\<close>

text \<open>
  The development embeds the QR controller (\<^verbatim>\<open>generateQR\<close>, \<^verbatim>\<open>generateTeacherSelfQR\<close>,
  \<^verbatim>\<open>scanTeacherQR\<close>, \<^verbatim>\<open>scanQR\<close>), the attendance controller's \<^verbatim>\<open>markAttendance\<close> and the
  \<^verbatim>\<open>Attendance\<close> schema. Conventions:
  \<^item> an instant is an \<open>int\<close>, the milliseconds of \<^verbatim>\<open>Date.now()\<close>; every request reads the
    clock once (the source's successive reads within one request are taken as one instant);
  \<^item> an ObjectId of a teacher or student is a \<open>string\<close>; the \<^verbatim>\<open>_id\<close> of an attendance
    document is its position in the collection, which the handlers only ever append to;
  \<^item> JavaScript numbers that the handlers divide are exact rationals; the quotients that
    occur stay far from the precision of a double except at the ties of \<^verbatim>\<open>toFixed\<close>, which
    are a parameter of the model;
  \<^item> a string field that is \<^verbatim>\<open>undefined\<close> or empty in the source, and only ever tested
    for truthiness, is the empty string.
\<close>

subsection \<open>Token codec: the \<^verbatim>\<open>jsonwebtoken\<close> dependency\<close>

text \<open>The object \<^verbatim>\<open>qrPayload\<close> built by the two generators and read back as \<^verbatim>\<open>decoded\<close>.
  The class generator sets subject, class, section and period; the teacher generator sets
  type and purpose.\<close>

record qrPayload =
  qr_sessionId :: string
  qr_teacherId :: string
  qr_teacherName :: string
  qr_subject :: "string option"
  qr_class :: "string option"
  qr_section :: "string option"
  qr_period :: "int option"
  qr_institutionCode :: string
  qr_timestamp :: int
  qr_type :: "string option"
  qr_purpose :: "string option"

text \<open>What \<^verbatim>\<open>jwt.sign\<close> signs: the payload with the registered claims \<^verbatim>\<open>iat\<close> and
  \<^verbatim>\<open>exp\<close> (here \<open>exp_claim\<close>), both in whole seconds.\<close>

record jwt_claims =
  payload :: qrPayload
  iat :: int
  exp_claim :: int

text \<open>The package is a dependency of the repository and its code is not part of it. The
  model follows its \<^verbatim>\<open>sign\<close> and \<^verbatim>\<open>verify\<close> as called here, with a string secret and no
  options but \<^verbatim>\<open>expiresIn\<close>. A token string is one of:
  \<^item> \<open>Not_three_parts\<close>: it does not split at dots into exactly three parts;
  \<^item> \<open>Bad_header\<close>: three parts that are not base64url text or whose first part does not
    decode to a JSON header, as in \<^verbatim>\<open>not.a.token\<close>;
  \<^item> \<open>Bad_payload\<close>: three parts with a header of type JWT and a second part that is not
    JSON, on which the decoder's \<^verbatim>\<open>JSON.parse\<close> throws;
  \<^item> \<open>Unsupported_alg\<close>: three parts with a signature part and a header that names an
    algorithm other than the HMAC ones a string secret admits;
  \<^item> \<open>Jws c sg\<close>: a header for an HMAC algorithm, the claims \<open>c\<close> and the signature part
    \<open>sg\<close>.
  The MAC is symbolic: the signature that \<^verbatim>\<open>sign\<close> makes with key \<open>k\<close> over claims \<open>c\<close> is
  the term \<open>HS256 k c\<close>, so two signatures agree only when key and signed content agree.
  \<open>Other_signature\<close> stands for any other non-empty bytes in the signature part and
  \<open>No_signature\<close> for an empty one.\<close>

datatype signature = HS256 string jwt_claims | Other_signature string | No_signature

datatype token =
    Not_three_parts string
  | Bad_header string
  | Bad_payload string
  | Unsupported_alg string
  | Jws jwt_claims signature

text \<open>What \<^verbatim>\<open>verify\<close> throws: a \<^verbatim>\<open>JsonWebTokenError\<close> with its message, a
  \<^verbatim>\<open>TokenExpiredError\<close>, or the \<^verbatim>\<open>SyntaxError\<close> of \<^verbatim>\<open>JSON.parse\<close> that it hands on.\<close>

datatype jwt_error = JsonWebTokenError string | TokenExpiredError | SyntaxError

text \<open>\<^verbatim>\<open>jwt.sign(payload, secret, { expiresIn })\<close>: \<^verbatim>\<open>iat = floor(Date.now() / 1000)\<close>,
  \<^verbatim>\<open>exp = iat + expiresIn\<close> with \<open>expiresIn\<close> in seconds.\<close>

definition jwt_sign :: "qrPayload \<Rightarrow> string \<Rightarrow> int \<Rightarrow> int \<Rightarrow> token" where
  "jwt_sign p secret expiresIn now =
     (let c = \<lparr>payload = p, iat = now div 1000, exp_claim = now div 1000 + expiresIn\<rparr>
      in Jws c (HS256 secret c))"

text \<open>\<^verbatim>\<open>jwt.verify(token, secret)\<close>, in the order of its checks: the number of parts, the
  decoding of header and payload, the presence of a signature part, the algorithm, the
  signature, and only then the expiry, \<^verbatim>\<open>floor(Date.now() / 1000) >= exp\<close>.\<close>

definition jwt_verify :: "token \<Rightarrow> string \<Rightarrow> int \<Rightarrow> jwt_error + jwt_claims" where
  "jwt_verify tok secret now =
     (case tok of
        Not_three_parts s \<Rightarrow> Inl (JsonWebTokenError ''jwt malformed'')
      | Bad_header s \<Rightarrow> Inl (JsonWebTokenError ''invalid token'')
      | Bad_payload s \<Rightarrow> Inl SyntaxError
      | Unsupported_alg s \<Rightarrow> Inl (JsonWebTokenError ''invalid algorithm'')
      | Jws c sg \<Rightarrow>
          if sg = No_signature then Inl (JsonWebTokenError ''jwt signature is required'')
          else if sg \<noteq> HS256 secret c then Inl (JsonWebTokenError ''invalid signature'')
          else if now div 1000 \<ge> exp_claim c then Inl TokenExpiredError
          else Inr c)"

subsection \<open>Directory and attendance collection\<close>

record teacher =
  t_name :: string
  t_teacherId :: string
  t_department :: string
  t_institutionCode :: string

record student =
  s_name :: string
  s_rollNo :: string
  s_section :: string

datatype attendance_type = Student_attendance | Teacher_attendance

datatype status = present | absent | late | half_day | on_leave

text \<open>The \<^verbatim>\<open>remarks\<close> strings are built from locale-formatted times; the model keeps the
  template and its arguments.\<close>

datatype remarks =
    No_remarks
  | Checked_in_at int
  | Checked_out_at int
  | Checked_out_worked int rat
  | Late_by int
  | On_time

text \<open>A document of \<^verbatim>\<open>AttendanceSchema\<close> (the \<^verbatim>\<open>location\<close> field, never written by the
  handlers, is left out).\<close>

record attendance =
  studentId :: "string option"
  teacherId :: string
  attendanceType :: attendance_type
  subject :: "string option"
  institutionCode :: string
  sessionId :: string
  status :: status
  date :: int
  scanTime :: int
  teacherCheckIn :: "int option"
  teacherCheckOut :: "int option"
  workHours :: rat
  markedBy :: string
  remarks :: remarks
  class_name :: "string option"
  section_name :: "string option"
  period :: int
  lateMinutes :: int
  rollNumber :: "string option"
  createdAt :: int

record db =
  attendances :: "attendance list"
  teachers :: "string \<rightharpoonup> teacher"
  students :: "string \<rightharpoonup> student"

text \<open>\<^verbatim>\<open>d.setHours(0, 0, 0, 0)\<close>, with the server's clock in UTC.\<close>

definition startOfDay :: "int \<Rightarrow> int" where
  "startOfDay t = t - t mod 86400000"

text \<open>\<^verbatim>\<open>new Attendance({})\<close>: the schema's defaults at the instant of construction.\<close>

definition new_Attendance :: "int \<Rightarrow> attendance" where
  "new_Attendance now =
     \<lparr>studentId = None, teacherId = '''', attendanceType = Student_attendance,
      subject = None, institutionCode = '''', sessionId = '''', status = present,
      date = startOfDay now, scanTime = now, teacherCheckIn = None,
      teacherCheckOut = None, workHours = 0, markedBy = ''system'',
      remarks = No_remarks, class_name = None, section_name = None, period = 1,
      lateMinutes = 0, rollNumber = None, createdAt = now\<rparr>"

text \<open>The schema marks \<^verbatim>\<open>teacherId\<close>, \<^verbatim>\<open>institutionCode\<close> and \<^verbatim>\<open>sessionId\<close> as required;
  a required string that is missing or empty fails validation. The schema declares no
  index, so nothing else is checked when a document is stored.\<close>

definition validate :: "attendance \<Rightarrow> bool" where
  "validate doc \<longleftrightarrow> teacherId doc \<noteq> [] \<and> institutionCode doc \<noteq> [] \<and> sessionId doc \<noteq> []"

text \<open>\<^verbatim>\<open>await attendance.save()\<close> of a new document: a validation error, or the collection
  with the document appended and its \<^verbatim>\<open>_id\<close>.\<close>

definition save_new :: "db \<Rightarrow> attendance \<Rightarrow> string + (db \<times> nat)" where
  "save_new d doc =
     (if validate doc
      then Inr (d\<lparr>attendances := attendances d @ [doc]\<rparr>, length (attendances d))
      else Inl ''ValidationError'')"

text \<open>\<^verbatim>\<open>await existingAttendance.save()\<close> of a document that was found at position \<open>i\<close>.\<close>

definition save_existing :: "db \<Rightarrow> nat \<Rightarrow> attendance \<Rightarrow> string + db" where
  "save_existing d i doc =
     (if validate doc
      then Inr (d\<lparr>attendances := (attendances d)[i := doc]\<rparr>)
      else Inl ''ValidationError'')"

text \<open>\<^verbatim>\<open>Attendance.findOne(filter)\<close>: the first document, in insertion order, that matches,
  with its position.\<close>

fun findOne_from :: "nat \<Rightarrow> ('a \<Rightarrow> bool) \<Rightarrow> 'a list \<Rightarrow> (nat \<times> 'a) option" where
  "findOne_from i P [] = None"
| "findOne_from i P (x # xs) = (if P x then Some (i, x) else findOne_from (Suc i) P xs)"

definition findOne :: "('a \<Rightarrow> bool) \<Rightarrow> 'a list \<Rightarrow> (nat \<times> 'a) option" where
  "findOne P xs = findOne_from 0 P xs"

subsection \<open>Responses\<close>

text \<open>Status code and JSON body of a response. Of \<^verbatim>\<open>data\<close> the fields below are kept;
  names and formatted times are left out.\<close>

record response =
  http_status :: nat
  success :: bool
  message :: string
  data_action :: "string option"
  data_attendanceId :: "nat option"
  data_workHours :: "rat option"
  data_status :: "status option"
  data_lateMinutes :: "int option"
  data_qrToken :: "token option"
  data_sessionId :: "string option"
  data_expiresIn :: "string option"

definition reply :: "nat \<Rightarrow> bool \<Rightarrow> string \<Rightarrow> response" where
  "reply code ok msg =
     \<lparr>http_status = code, success = ok, message = msg, data_action = None,
      data_attendanceId = None, data_workHours = None, data_status = None,
      data_lateMinutes = None, data_qrToken = None, data_sessionId = None,
      data_expiresIn = None\<rparr>"

text \<open>The bytes of the check mark that opens the teacher messages (U+2705 in UTF-8).\<close>

definition check_mark :: string where
  "check_mark = [CHR 0xE2, CHR 0x9C, CHR 0x85]"

subsection \<open>Issuing tokens\<close>

record generate_request =
  body_subject :: string
  body_class :: string
  body_section :: string
  body_period :: int
  user_id :: string
  user_institutionCode :: string

text \<open>\<^verbatim>\<open>generateQR\<close>. The arguments are the signing secret \<^verbatim>\<open>process.env.JWT_SECRET\<close>, the
  database, the request, the session id drawn by \<^verbatim>\<open>crypto.randomBytes\<close> and the clock.\<close>

definition generateQR :: "string \<Rightarrow> db \<Rightarrow> generate_request \<Rightarrow> string \<Rightarrow> int \<Rightarrow> response" where
  "generateQR secret d req sid now =
     (if body_subject req = [] \<or> body_class req = []
      then reply 400 False ''Subject and Class are required''
      else case teachers d (user_id req) of
        None \<Rightarrow> reply 404 False ''Teacher not found''
      | Some t \<Rightarrow>
          let p = \<lparr>qr_sessionId = sid, qr_teacherId = user_id req,
                   qr_teacherName = t_name t,
                   qr_subject = Some (body_subject req),
                   qr_class = Some (body_class req),
                   qr_section = Some (body_section req),
                   qr_period = Some (if body_period req = 0 then 1 else body_period req),
                   qr_institutionCode = user_institutionCode req,
                   qr_timestamp = now, qr_type = None, qr_purpose = None\<rparr>;
              qrToken = jwt_sign p secret (5 * 60) now
          in (reply 200 True ''QR Code generated successfully'')
               \<lparr>data_qrToken := Some qrToken, data_sessionId := Some sid,
                data_expiresIn := Some ''5 minutes''\<rparr>)"

text \<open>\<^verbatim>\<open>generateTeacherSelfQR\<close>; it reads only the authenticated user of the request.\<close>

definition generateTeacherSelfQR ::
    "string \<Rightarrow> db \<Rightarrow> generate_request \<Rightarrow> string \<Rightarrow> int \<Rightarrow> response" where
  "generateTeacherSelfQR secret d req sid now =
     (case teachers d (user_id req) of
        None \<Rightarrow> reply 404 False ''Teacher not found''
      | Some t \<Rightarrow>
          let p = \<lparr>qr_sessionId = sid, qr_teacherId = user_id req,
                   qr_teacherName = t_name t,
                   qr_subject = None, qr_class = None, qr_section = None,
                   qr_period = None,
                   qr_institutionCode = user_institutionCode req,
                   qr_timestamp = now, qr_type = Some ''teacher_attendance'',
                   qr_purpose = Some ''check_in''\<rparr>;
              qrToken = jwt_sign p secret (2 * 60) now
          in (reply 200 True ''Teacher Attendance QR Generated'')
               \<lparr>data_qrToken := Some qrToken, data_sessionId := Some sid,
                data_expiresIn := Some ''2 minutes''\<rparr>)"

subsection \<open>Redeeming a teacher token\<close>

record scan_request =
  qrToken :: "token option"
  req_user_id :: string

text \<open>\<^verbatim>\<open>x.toFixed(2)\<close> read back by \<^verbatim>\<open>parseFloat\<close>: the magnitude is rounded to the nearest
  hundredth. At an exact tie the source rounds the double that holds the quotient, which
  lies on one side of the tie or on it; \<open>ties_up\<close> says whether that double rounds up.\<close>

definition toFixed2 :: "(rat \<Rightarrow> bool) \<Rightarrow> rat \<Rightarrow> rat" where
  "toFixed2 ties_up x =
     (let a = \<bar>x\<bar> * 100; n = \<lfloor>a\<rfloor>; f = a - of_int n;
          m = (if f < 1 / 2 then n else if 1 / 2 < f then n + 1
               else if ties_up \<bar>x\<bar> then n + 1 else n)
      in sgn x * of_int m / 100)"

definition teacher_filter :: "string \<Rightarrow> int \<Rightarrow> attendance \<Rightarrow> bool" where
  "teacher_filter tid today a \<longleftrightarrow>
     teacherId a = tid \<and> date a \<ge> today \<and> attendanceType a = Teacher_attendance"

text \<open>\<^verbatim>\<open>scanTeacherQR\<close>. The catch-all handler answers 500 for a failed save and for the
  \<^verbatim>\<open>TypeError\<close> raised, after the save, when the response reads the check-in time of a
  document that has none.\<close>

definition scanTeacherQR ::
    "(rat \<Rightarrow> bool) \<Rightarrow> string \<Rightarrow> db \<Rightarrow> scan_request \<Rightarrow> int \<Rightarrow> db \<times> response" where
  "scanTeacherQR ties_up secret d req now =
     (case qrToken req of
        None \<Rightarrow> (d, reply 400 False ''QR token is required'')
      | Some tok \<Rightarrow>
      (case jwt_verify tok secret now of
        Inl jwtError \<Rightarrow> (d, reply 401 False ''Invalid or expired QR code'')
      | Inr c \<Rightarrow>
      let decoded = payload c in
      if qr_type decoded \<noteq> Some ''teacher_attendance''
      then (d, reply 400 False ''This QR is not for teacher attendance'')
      else
      (case teachers d (qr_teacherId decoded) of
        None \<Rightarrow> (d, reply 404 False ''Teacher not found'')
      | Some t \<Rightarrow>
      let today = startOfDay now; currentTime = now in
      (case findOne (teacher_filter (qr_teacherId decoded) today) (attendances d) of
        None \<Rightarrow>
          let attendance = (new_Attendance now)
                \<lparr>teacherId := qr_teacherId decoded,
                 institutionCode :=
                   (if qr_institutionCode decoded \<noteq> [] then qr_institutionCode decoded
                    else t_institutionCode t),
                 attendanceType := Teacher_attendance,
                 teacherCheckIn := Some currentTime,
                 status := present,
                 date := today,
                 scanTime := currentTime,
                 sessionId := qr_sessionId decoded,
                 markedBy := (if req_user_id req \<noteq> [] then req_user_id req
                              else ''qr_scanner''),
                 remarks := Checked_in_at currentTime\<rparr>
          in (case save_new d attendance of
                Inl err \<Rightarrow> (d, reply 500 False ''Failed to process QR scan'')
              | Inr (d', aid) \<Rightarrow>
                  (d', (reply 200 True (check_mark @ '' Teacher check-in successful!''))
                         \<lparr>data_attendanceId := Some aid,
                          data_action := Some ''check_in''\<rparr>))
      | Some (i, existingAttendance) \<Rightarrow>
          if teacherCheckOut existingAttendance = None
          then
            let e1 = existingAttendance
                  \<lparr>teacherCheckOut := Some currentTime,
                   scanTime := currentTime,
                   remarks := Checked_out_at currentTime\<rparr>;
                e2 = (case teacherCheckIn e1 of
                        None \<Rightarrow> e1
                      | Some checkIn \<Rightarrow>
                          let wh = toFixed2 ties_up
                                     (of_int (currentTime - checkIn) / (1000 * 60 * 60))
                          in e1\<lparr>workHours := wh,
                                remarks := Checked_out_worked currentTime wh\<rparr>)
            in (case save_existing d i e2 of
                  Inl err \<Rightarrow> (d, reply 500 False ''Failed to process QR scan'')
                | Inr d' \<Rightarrow>
                    (case teacherCheckIn e2 of
                       None \<Rightarrow> (d', reply 500 False ''Failed to process QR scan'')
                     | Some checkIn \<Rightarrow>
                         (d', (reply 200 False
                                 (check_mark @ '' Teacher check-out successful!''))
                                \<lparr>data_workHours := Some (workHours e2),
                                 data_attendanceId := Some i,
                                 data_action := Some ''check_out''\<rparr>)))
          else (d, reply 400 False ''Attendance already completed for today'')))))"

subsection \<open>Redeeming a class token\<close>

definition session_filter :: "string \<Rightarrow> string \<Rightarrow> attendance \<Rightarrow> bool" where
  "session_filter sid stu a \<longleftrightarrow> sessionId a = sid \<and> studentId a = Some stu"

text \<open>\<^verbatim>\<open>qrController.scanQR\<close> up to the result of \<^verbatim>\<open>findOne\<close>: either the response that ends
  the request, or the document that the handler goes on to save. The handler's \<^verbatim>\<open>catch\<close>
  tells the errors of \<^verbatim>\<open>jwt.verify\<close> apart by name and answers 500 for any other.\<close>

definition scanQR_check :: "string \<Rightarrow> db \<Rightarrow> scan_request \<Rightarrow> int \<Rightarrow> response + attendance" where
  "scanQR_check secret d req now =
     (case qrToken req of
        None \<Rightarrow> Inl (reply 400 False ''QR token is required'')
      | Some tok \<Rightarrow>
      (case jwt_verify tok secret now of
        Inl (JsonWebTokenError m) \<Rightarrow> Inl (reply 400 False ''Invalid QR code'')
      | Inl TokenExpiredError \<Rightarrow> Inl (reply 400 False ''QR code has expired'')
      | Inl SyntaxError \<Rightarrow> Inl (reply 500 False ''Failed to scan QR code'')
      | Inr c \<Rightarrow>
      let decoded = payload c in
      if now > qr_timestamp decoded + 5 * 60 * 1000
      then Inl (reply 400 False ''QR code has expired'')
      else
      (case findOne (session_filter (qr_sessionId decoded) (req_user_id req))
                    (attendances d) of
        Some existingAttendance \<Rightarrow>
          Inl (reply 400 False ''Attendance already marked for this session'')
      | None \<Rightarrow>
          Inr ((new_Attendance now)
                 \<lparr>sessionId := qr_sessionId decoded,
                  teacherId := qr_teacherId decoded,
                  studentId := Some (req_user_id req),
                  subject := qr_subject decoded,
                  class_name := qr_class decoded,
                  section_name := qr_section decoded,
                  period := (case qr_period decoded of None \<Rightarrow> 1 | Some n \<Rightarrow> n),
                  institutionCode := qr_institutionCode decoded,
                  status := present\<rparr>))))"

text \<open>The rest of \<^verbatim>\<open>scanQR\<close>: \<^verbatim>\<open>await attendance.save()\<close> on the collection as it is when
  the save runs, and the response.\<close>

definition scanQR_save :: "db \<Rightarrow> attendance \<Rightarrow> db \<times> response" where
  "scanQR_save d attendance =
     (case save_new d attendance of
        Inl err \<Rightarrow> (d, reply 500 False ''Failed to scan QR code'')
      | Inr (d', aid) \<Rightarrow>
          (d', (reply 200 True ''Attendance marked successfully'')
                 \<lparr>data_attendanceId := Some aid\<rparr>))"

text \<open>One request served without another one in between.\<close>

definition scanQR :: "string \<Rightarrow> db \<Rightarrow> scan_request \<Rightarrow> int \<Rightarrow> db \<times> response" where
  "scanQR secret d req now =
     (case scanQR_check secret d req now of
        Inl r \<Rightarrow> (d, r)
      | Inr attendance \<Rightarrow> scanQR_save d attendance)"

text \<open>Decimal digits of a natural number, for the template of the late message.\<close>

fun show_nat :: "nat \<Rightarrow> string" where
  "show_nat n =
     (if n < 10 then [''0123456789'' ! n]
      else show_nat (n div 10) @ [''0123456789'' ! (n mod 10)])"

declare show_nat.simps [simp del]

text \<open>\<^verbatim>\<open>timeDifference\<close>, \<^verbatim>\<open>isLate\<close> and \<^verbatim>\<open>lateMinutes\<close> of \<^verbatim>\<open>markAttendance\<close>.\<close>

definition timeDifference :: "int \<Rightarrow> int \<Rightarrow> rat" where
  "timeDifference currentTime qrTime = of_int (currentTime - qrTime) / 1000 / 60"

definition isLate :: "rat \<Rightarrow> bool" where
  "isLate td \<longleftrightarrow> td > 1"

definition lateMinutes_of :: "rat \<Rightarrow> int" where
  "lateMinutes_of td = (if isLate td then \<lfloor>td\<rfloor> else 0)"

text \<open>\<^verbatim>\<open>attendanceController.markAttendance\<close>.\<close>

definition markAttendance :: "string \<Rightarrow> db \<Rightarrow> scan_request \<Rightarrow> int \<Rightarrow> db \<times> response" where
  "markAttendance secret d req now =
     (case qrToken req of
        None \<Rightarrow> (d, reply 400 False ''QR token is required'')
      | Some tok \<Rightarrow>
      (case jwt_verify tok secret now of
        Inl jwtError \<Rightarrow>
          (d, reply 401 False
                ''QR code expired or invalid. Please ask teacher for a new one.'')
      | Inr c \<Rightarrow>
      let decoded = payload c;
          td = timeDifference now (qr_timestamp decoded) in
      if td > 5
      then (d, reply 401 False ''QR code has expired. Please ask teacher for a new one.'')
      else
      (case findOne (session_filter (qr_sessionId decoded) (req_user_id req))
                    (attendances d) of
        Some existingAttendance \<Rightarrow>
          (d, reply 400 False ''Attendance already marked for this class'')
      | None \<Rightarrow>
      (case students d (req_user_id req) of
        None \<Rightarrow> (d, reply 404 False ''Student not found'')
      | Some st \<Rightarrow>
      (case teachers d (qr_teacherId decoded) of
        None \<Rightarrow> (d, reply 404 False ''Teacher not found'')
      | Some t \<Rightarrow>
          let attendance = (new_Attendance now)
                \<lparr>studentId := Some (req_user_id req),
                 rollNumber := Some (s_rollNo st),
                 teacherId := qr_teacherId decoded,
                 institutionCode := qr_institutionCode decoded,
                 class_name := qr_class decoded,
                 section_name :=
                   Some (case qr_section decoded of
                           None \<Rightarrow> s_section st
                         | Some s \<Rightarrow> if s \<noteq> [] then s else s_section st),
                 subject := qr_subject decoded,
                 period := (case qr_period decoded of
                              None \<Rightarrow> 1
                            | Some n \<Rightarrow> if n \<noteq> 0 then n else 1),
                 sessionId := qr_sessionId decoded,
                 status := (if isLate td then late else present),
                 lateMinutes := lateMinutes_of td,
                 date := now,
                 scanTime := now,
                 remarks := (if isLate td then Late_by (lateMinutes_of td) else On_time)\<rparr>
          in (case save_new d attendance of
                Inl err \<Rightarrow> (d, reply 500 False ''Failed to mark attendance'')
              | Inr (d', aid) \<Rightarrow>
                  (d', (reply 200 True
                          (if isLate td
                           then ''Attendance marked (Late by ''
                                  @ show_nat (nat (lateMinutes_of td)) @ '' minutes)''
                           else ''Attendance marked successfully''))
                         \<lparr>data_attendanceId := Some aid,
                          data_status := Some (if isLate td then late else present),
                          data_lateMinutes := Some (lateMinutes_of td)\<rparr>)))))))"

subsection \<open>Sequences of requests\<close>

text \<open>Teacher scans served one after the other, each on the database the previous one
  left.\<close>

fun scanTeacherQR_seq ::
    "(rat \<Rightarrow> bool) \<Rightarrow> string \<Rightarrow> db \<Rightarrow> (scan_request \<times> int) list \<Rightarrow> db \<times> response list" where
  "scanTeacherQR_seq ties_up secret d [] = (d, [])"
| "scanTeacherQR_seq ties_up secret d ((req, now) # rest) =
     (case scanTeacherQR ties_up secret d req now of
        (d', r) \<Rightarrow>
          (case scanTeacherQR_seq ties_up secret d' rest of
             (d'', rs) \<Rightarrow> (d'', r # rs)))"

text \<open>A request that carries a token which verifies at \<open>now\<close> as a teacher token of
  teacher \<open>tid\<close>, on the calendar day that starts at \<open>day\<close>.\<close>

definition teacher_scan_on :: "string \<Rightarrow> string \<Rightarrow> int \<Rightarrow> scan_request \<Rightarrow> int \<Rightarrow> bool" where
  "teacher_scan_on secret tid day req now \<longleftrightarrow>
     startOfDay now = day \<and>
     (case qrToken req of
        None \<Rightarrow> False
      | Some tok \<Rightarrow>
          (case jwt_verify tok secret now of
             Inl e \<Rightarrow> False
           | Inr c \<Rightarrow> qr_type (payload c) = Some ''teacher_attendance'' \<and>
                      qr_teacherId (payload c) = tid))"

text \<open>The session id carried by the token of a request, when it has one that parses.\<close>

definition token_sessionId :: "scan_request \<Rightarrow> string" where
  "token_sessionId req =
     (case qrToken req of
        Some (Jws c sg) \<Rightarrow> qr_sessionId (payload c)
      | _ \<Rightarrow> [])"

text \<open>The number of documents stored under a (sessionId, studentId) key.\<close>

definition records_for :: "string \<Rightarrow> string \<Rightarrow> db \<Rightarrow> nat" where
  "records_for sid stu d = length (filter (session_filter sid stu) (attendances d))"

text \<open>A request whose token verifies at \<open>now\<close> and is within the five minutes that both
  class handlers allow after the stamp in its payload.\<close>

definition class_token_live :: "string \<Rightarrow> scan_request \<Rightarrow> int \<Rightarrow> bool" where
  "class_token_live secret req now \<longleftrightarrow>
     (case qrToken req of
        None \<Rightarrow> False
      | Some tok \<Rightarrow>
          (case jwt_verify tok secret now of
             Inl e \<Rightarrow> False
           | Inr c \<Rightarrow> now \<le> qr_timestamp (payload c) + 5 * 60 * 1000))"




subsection \<open>Example data\<close>

definition secret0 :: string where
  "secret0 = ''s3cret''"

definition teacher0 :: teacher where
  "teacher0 = \<lparr>t_name = ''Asha'', t_teacherId = ''T-01'', t_department = ''Maths'',
                t_institutionCode = ''INS1''\<rparr>"

definition db0 :: db where
  "db0 = \<lparr>attendances = [],
          teachers = [''t1'' \<mapsto> teacher0],
          students = [''s1'' \<mapsto> \<lparr>s_name = ''Ravi'', s_rollNo = ''17'', s_section = ''A''\<rparr>]\<rparr>"

text \<open>09:00:00 UTC on 4 October 2024, and that day's midnight.\<close>

definition nine :: int where
  "nine = 1728032400000"

definition midnight :: int where
  "midnight = 1728000000000"

definition class_request :: generate_request where
  "class_request = \<lparr>body_subject = ''Math'', body_class = ''10A'', body_section = [],
     body_period = 2, user_id = ''t1'', user_institutionCode = ''INS1''\<rparr>"

definition class_payload :: qrPayload where
  "class_payload = \<lparr>qr_sessionId = ''ab12'', qr_teacherId = ''t1'',
     qr_teacherName = ''Asha'', qr_subject = Some ''Math'', qr_class = Some ''10A'',
     qr_section = Some [], qr_period = Some 2, qr_institutionCode = ''INS1'',
     qr_timestamp = nine, qr_type = None, qr_purpose = None\<rparr>"

definition class_token :: token where
  "class_token = jwt_sign class_payload secret0 (5 * 60) nine"

definition student_scan :: scan_request where
  "student_scan = \<lparr>qrToken = Some class_token, req_user_id = ''s1''\<rparr>"

definition teacher_payload :: "string \<Rightarrow> int \<Rightarrow> qrPayload" where
  "teacher_payload sid t = \<lparr>qr_sessionId = sid, qr_teacherId = ''t1'',
     qr_teacherName = ''Asha'', qr_subject = None, qr_class = None,
     qr_section = None, qr_period = None, qr_institutionCode = ''INS1'',
     qr_timestamp = t, qr_type = Some ''teacher_attendance'',
     qr_purpose = Some ''check_in''\<rparr>"

definition teacher_scan :: "string \<Rightarrow> int \<Rightarrow> scan_request" where
  "teacher_scan sid t =
     \<lparr>qrToken = Some (jwt_sign (teacher_payload sid t) secret0 (2 * 60) t),
      req_user_id = []\<rparr>"

text \<open>The document a check-in at 09:00:00 leaves, and the database that holds it.\<close>

definition checked_in_record :: attendance where
  "checked_in_record = (new_Attendance nine)
     \<lparr>teacherId := ''t1'', institutionCode := ''INS1'',
      attendanceType := Teacher_attendance, teacherCheckIn := Some nine,
      status := present, date := midnight, scanTime := nine, sessionId := ''aa01'',
      markedBy := ''qr_scanner'', remarks := Checked_in_at nine\<rparr>"

definition db_checked_in :: db where
  "db_checked_in = db0\<lparr>attendances := [checked_in_record]\<rparr>"

text \<open>The documents the two class handlers store for the example scan.\<close>

definition scanned_record :: attendance where
  "scanned_record = (new_Attendance (nine + 45000))
     \<lparr>sessionId := ''ab12'', teacherId := ''t1'', studentId := Some ''s1'',
      subject := Some ''Math'', class_name := Some ''10A'', section_name := Some [],
      period := 2, institutionCode := ''INS1'', status := present\<rparr>"

definition marked_record :: "int \<Rightarrow> status \<Rightarrow> int \<Rightarrow> remarks \<Rightarrow> attendance" where
  "marked_record now st lm rm = (new_Attendance now)
     \<lparr>studentId := Some ''s1'', rollNumber := Some ''17'', teacherId := ''t1'',
      institutionCode := ''INS1'', class_name := Some ''10A'', section_name := Some ''A'',
      subject := Some ''Math'', period := 2, sessionId := ''ab12'', status := st,
      lateMinutes := lm, date := now, scanTime := now, remarks := rm\<rparr>"








text \<open>The document of a second scan of the same token, one millisecond later.\<close>

definition second_scanned_record :: attendance where
  "second_scanned_record =
     scanned_record\<lparr>scanTime := nine + 45001, createdAt := nine + 45001\<rparr>"

section \<open>Properties\<close>

subsection \<open>Lookup in the collection\<close>

lemma findOne_from_append:
  "findOne_from i P (xs @ [x]) =
     (case findOne_from i P xs of
        Some r \<Rightarrow> Some r
      | None \<Rightarrow> if P x then Some (i + length xs, x) else None)"
  by (induction xs arbitrary: i) (auto split: option.splits)

lemma findOne_append_None:
  "findOne P xs = None \<Longrightarrow> P x \<Longrightarrow> findOne P (xs @ [x]) = Some (length xs, x)"
  by (simp add: findOne_def findOne_from_append)

lemma findOne_from_Some:
  "findOne_from i P xs = Some (j, x) \<Longrightarrow>
     i \<le> j \<and> j - i < length xs \<and> xs ! (j - i) = x \<and> P x"
proof (induction xs arbitrary: i)
  case Nil
  then show ?case by simp
next
  case (Cons a xs)
  show ?case
  proof (cases "P a")
    case True
    with Cons.prems show ?thesis by simp
  next
    case False
    with Cons.prems have "findOne_from (Suc i) P xs = Some (j, x)" by simp
    from Cons.IH[OF this] show ?thesis by (auto simp: Suc_diff_le nth_Cons')
  qed
qed

lemma findOne_Some:
  "findOne P xs = Some (j, x) \<Longrightarrow> j < length xs \<and> xs ! j = x \<and> P x"
  using findOne_from_Some[of 0 P xs j x] by (simp add: findOne_def)

lemma nth_findOne: "findOne P xs = Some (i, e) \<Longrightarrow> xs[i := y] ! i = y"
  using findOne_Some[of P xs i e] by simp

subsection \<open>Tokens\<close>

lemma verify_sign:
  "jwt_verify (jwt_sign p secret ttl issuedAt) secret now =
     (if issuedAt div 1000 + ttl \<le> now div 1000 then Inl TokenExpiredError
      else Inr \<lparr>payload = p, iat = issuedAt div 1000, exp_claim = issuedAt div 1000 + ttl\<rparr>)"
  by (simp add: jwt_verify_def jwt_sign_def Let_def)

lemma verify_InrD:
  "jwt_verify tok secret now = Inr c \<Longrightarrow>
     tok = Jws c (HS256 secret c) \<and> now div 1000 < exp_claim c"
  by (auto simp: jwt_verify_def split: token.splits if_splits)

lemma seconds_window:
  fixes now a :: int
  assumes "now div 1000 < a div 1000 + 300"
  shows "now \<le> a + 300000"
proof -
  have 1: "1000 * (now div 1000) + now mod 1000 = now" by (rule mult_div_mod_eq)
  have 2: "1000 * (a div 1000) + a mod 1000 = a" by (rule mult_div_mod_eq)
  have 3: "now mod 1000 < 1000" by simp
  have 4: "0 \<le> a mod 1000" by simp
  from assms 1 2 3 4 show ?thesis by linarith
qed

subsection \<open>Rounding of the work hours\<close>

lemma toFixed2_cases:
  "\<exists>m::int. toFixed2 ties x = sgn x * of_int m / 100 \<and>
            \<bar>of_int m - \<bar>x\<bar> * 100\<bar> \<le> 1 / 2"
proof -
  define a where "a = \<bar>x\<bar> * 100"
  define n where "n = \<lfloor>a\<rfloor>"
  define f where "f = a - of_int n"
  define m where "m = (if f < 1 / 2 then n else if 1 / 2 < f then n + 1
               else if ties \<bar>x\<bar> then n + 1 else n)"
  have r: "toFixed2 ties x = sgn x * of_int m / 100"
    by (simp add: toFixed2_def Let_def a_def n_def f_def m_def)
  have f0: "0 \<le> f" and f1: "f < 1"
    unfolding f_def n_def by linarith+
  have "\<bar>of_int m - a\<bar> \<le> 1 / 2"
    using f0 f1 unfolding m_def by (auto simp: f_def abs_if)
  then have "\<bar>of_int m - \<bar>x\<bar> * 100\<bar> \<le> 1 / 2"
    unfolding a_def .
  with r show ?thesis by blast
qed

lemma toFixed2_near: "\<bar>toFixed2 ties x - x\<bar> \<le> 1 / 200"
proof -
  obtain m :: int where r: "toFixed2 ties x = sgn x * of_int m / 100"
    and b: "\<bar>of_int m - \<bar>x\<bar> * 100\<bar> \<le> 1 / 2"
    using toFixed2_cases by blast
  consider "x = 0" | "0 < x" | "x < 0" by linarith
  then show ?thesis
  proof cases
    case 1
    with r show ?thesis by simp
  next
    case 2
    with r have "toFixed2 ties x = of_int m / 100" by simp
    moreover from 2 b have "\<bar>of_int m - x * 100\<bar> \<le> 1 / 2" by simp
    ultimately show ?thesis by (simp add: abs_if field_simps split: if_splits)
  next
    case 3
    with r have "toFixed2 ties x = - of_int m / 100" by simp
    moreover from 3 b have "\<bar>of_int m + x * 100\<bar> \<le> 1 / 2" by simp
    ultimately show ?thesis by (simp add: abs_if field_simps split: if_splits)
  qed
qed

lemma toFixed2_hundredths: "toFixed2 ties x * 100 = of_int \<lfloor>toFixed2 ties x * 100\<rfloor>"
proof -
  obtain m :: int where r: "toFixed2 ties x = sgn x * of_int m / 100"
    using toFixed2_cases by blast
  have "sgn x * of_int m = of_int ((if x < 0 then -1 else if x = 0 then 0 else 1) * m)"
    by (simp add: sgn_if)
  with r have "toFixed2 ties x * 100 =
      of_int ((if x < 0 then -1 else if x = 0 then 0 else 1) * m)"
    by simp
  then show ?thesis by (metis floor_of_int)
qed

lemma toFixed2_half_hour: "toFixed2 ties (of_int 1800000 / (1000 * 60 * 60)) = 1 / 2"
  by (simp add: toFixed2_def Let_def)

subsection \<open>The three branches of the teacher scan\<close>

lemma teacher_scan_onD:
  assumes "teacher_scan_on secret tid day req now"
  obtains tok c where "qrToken req = Some tok" "jwt_verify tok secret now = Inr c"
    "qr_type (payload c) = Some ''teacher_attendance''" "qr_teacherId (payload c) = tid"
    "startOfDay now = day"
  using assms by (auto simp: teacher_scan_on_def split: option.splits sum.splits)

lemma validate_check_in:
  "validate ((new_Attendance now)
             \<lparr>teacherId := tid, institutionCode := ic,
              attendanceType := Teacher_attendance,
              teacherCheckIn := Some now,
              status := present,
              date := day,
              scanTime := now,
              sessionId := sid,
              markedBy := mb,
              remarks := Checked_in_at now\<rparr>) \<longleftrightarrow> tid \<noteq> [] \<and> ic \<noteq> [] \<and> sid \<noteq> []"
  by (simp add: validate_def new_Attendance_def)

lemma scanTeacherQR_check_in:
  assumes "qrToken req = Some tok" "jwt_verify tok secret now = Inr c"
    "qr_type (payload c) = Some ''teacher_attendance''"
    "teachers d (qr_teacherId (payload c)) = Some t"
    "findOne (teacher_filter (qr_teacherId (payload c)) (startOfDay now)) (attendances d)
       = None"
    "qr_teacherId (payload c) \<noteq> []" "qr_sessionId (payload c) \<noteq> []"
    "qr_institutionCode (payload c) \<noteq> [] \<or> t_institutionCode t \<noteq> []"
  shows "scanTeacherQR ties secret d req now =
     (d\<lparr>attendances := attendances d @
          [(new_Attendance now)
             \<lparr>teacherId := qr_teacherId (payload c),
              institutionCode :=
                (if qr_institutionCode (payload c) \<noteq> [] then qr_institutionCode (payload c)
                 else t_institutionCode t),
              attendanceType := Teacher_attendance,
              teacherCheckIn := Some now,
              status := present,
              date := startOfDay now,
              scanTime := now,
              sessionId := qr_sessionId (payload c),
              markedBy := (if req_user_id req \<noteq> [] then req_user_id req
                           else ''qr_scanner''),
              remarks := Checked_in_at now\<rparr>]\<rparr>,
      (reply 200 True (check_mark @ '' Teacher check-in successful!''))
        \<lparr>data_attendanceId := Some (length (attendances d)),
         data_action := Some ''check_in''\<rparr>)"
  using assms
  by (auto simp: scanTeacherQR_def Let_def save_new_def validate_def new_Attendance_def)

lemma scanTeacherQR_check_out:
  assumes "qrToken req = Some tok" "jwt_verify tok secret now = Inr c"
    "qr_type (payload c) = Some ''teacher_attendance''"
    "teachers d (qr_teacherId (payload c)) = Some t"
    "findOne (teacher_filter (qr_teacherId (payload c)) (startOfDay now)) (attendances d)
       = Some (i, e)"
    "teacherCheckOut e = None" "teacherCheckIn e = Some checkIn" "validate e"
  shows "scanTeacherQR ties secret d req now =
     (d\<lparr>attendances := (attendances d)
          [i := e\<lparr>teacherCheckOut := Some now, scanTime := now,
                  workHours := toFixed2 ties (of_int (now - checkIn) / (1000 * 60 * 60)),
                  remarks := Checked_out_worked now
                     (toFixed2 ties (of_int (now - checkIn) / (1000 * 60 * 60)))\<rparr>]\<rparr>,
      (reply 200 False (check_mark @ '' Teacher check-out successful!''))
        \<lparr>data_workHours := Some (toFixed2 ties (of_int (now - checkIn) / (1000 * 60 * 60))),
         data_attendanceId := Some i,
         data_action := Some ''check_out''\<rparr>)"
  using assms
  by (simp add: scanTeacherQR_def Let_def save_existing_def validate_def)

lemma scanTeacherQR_completed:
  assumes "qrToken req = Some tok" "jwt_verify tok secret now = Inr c"
    "qr_type (payload c) = Some ''teacher_attendance''"
    "teachers d (qr_teacherId (payload c)) = Some t"
    "findOne (teacher_filter (qr_teacherId (payload c)) (startOfDay now)) (attendances d)
       = Some (i, e)"
    "teacherCheckOut e = Some co"
  shows "scanTeacherQR ties secret d req now =
     (d, reply 400 False ''Attendance already completed for today'')"
  using assms
  by (simp add: scanTeacherQR_def Let_def)

lemma scanTeacherQR_seq_completed:
  assumes "teachers d tid = Some t"
    "findOne (teacher_filter tid day) (attendances d) = Some (i, e)"
    "teacherCheckOut e = Some co"
    "\<forall>(req, now) \<in> set later. teacher_scan_on secret tid day req now"
  shows "scanTeacherQR_seq ties secret d later =
     (d, replicate (length later)
           (reply 400 False ''Attendance already completed for today''))"
  using assms(4)
proof (induction later)
  case Nil
  then show ?case by simp
next
  case (Cons a later)
  obtain req now where a: "a = (req, now)" by (cases a)
  from Cons.prems a have s: "teacher_scan_on secret tid day req now" by simp
  from s obtain tok c where *: "qrToken req = Some tok" "jwt_verify tok secret now = Inr c"
    "qr_type (payload c) = Some ''teacher_attendance''" "qr_teacherId (payload c) = tid"
    "startOfDay now = day" by (rule teacher_scan_onD)
  have "scanTeacherQR ties secret d req now =
     (d, reply 400 False ''Attendance already completed for today'')"
    using scanTeacherQR_completed[OF *(1) *(2) *(3), of d t i e co ties] assms(1,2,3) *(4,5)
    by simp
  moreover have "scanTeacherQR_seq ties secret d later =
     (d, replicate (length later)
           (reply 400 False ''Attendance already completed for today''))"
    using Cons by simp
  ultimately show ?case by (simp add: a)
qed

subsection \<open>Facts about the example data\<close>

lemma startOfDay_nine:
  "startOfDay nine = midnight" "startOfDay (nine + 1800000) = midnight"
  "startOfDay (nine + 3600000) = midnight"
  by (simp_all add: startOfDay_def nine_def midnight_def)

lemma teacher_scan_ok:
  "\<lbrakk>startOfDay now = day; now div 1000 < t div 1000 + 120\<rbrakk>
     \<Longrightarrow> teacher_scan_on secret0 ''t1'' day (teacher_scan sid t) now"
  by (simp add: teacher_scan_on_def teacher_scan_def jwt_verify_def jwt_sign_def Let_def
      teacher_payload_def)

lemma db_checked_in_teacher: "teachers db_checked_in ''t1'' = Some teacher0"
  by (simp add: db_checked_in_def db0_def)

lemma db_checked_in_found:
  "findOne (teacher_filter ''t1'' midnight) (attendances db_checked_in)
     = Some (0, checked_in_record)"
  by (simp add: db_checked_in_def findOne_def teacher_filter_def checked_in_record_def)

lemma checked_in_record_fields:
  "teacherCheckOut checked_in_record = None" "teacherCheckIn checked_in_record = Some nine"
  "validate checked_in_record"
  by (simp_all add: checked_in_record_def new_Attendance_def validate_def)

subsection \<open>Lateness arithmetic and the class handlers\<close>

lemma findOne_from_None: "findOne_from i P xs = None \<longleftrightarrow> filter P xs = []"
  by (induction xs arbitrary: i) auto

lemma findOne_None: "findOne P xs = None \<longleftrightarrow> filter P xs = []"
  by (simp add: findOne_def findOne_from_None)

lemma timeDifference_gt:
  "timeDifference now ts > of_int k \<longleftrightarrow> now - ts > k * 60000"
proof -
  have "timeDifference now ts = of_int (now - ts) / of_int 60000"
    by (simp add: timeDifference_def)
  also have "\<dots> > of_int k \<longleftrightarrow> (of_int (k * 60000) :: rat) < of_int (now - ts)"
    by (simp add: field_simps)
  also have "\<dots> \<longleftrightarrow> k * 60000 < now - ts"
    by (simp only: of_int_less_iff)
  finally show ?thesis .
qed

lemma isLate_iff: "isLate (timeDifference now ts) \<longleftrightarrow> now - ts > 60000"
  using timeDifference_gt[of 1 now ts] by (simp add: isLate_def)

lemma expired_iff: "timeDifference now ts > 5 \<longleftrightarrow> now > ts + 5 * 60 * 1000"
  using timeDifference_gt[of 5 now ts] by auto

lemma floor_timeDifference: "\<lfloor>timeDifference now ts\<rfloor> = (now - ts) div 60000"
proof -
  have "timeDifference now ts = of_int (now - ts) / of_int 60000"
    by (simp add: timeDifference_def)
  then show ?thesis by (simp only: floor_divide_of_int_eq)
qed

lemma lateMinutes_of_eq:
  "lateMinutes_of (timeDifference now ts) =
     (if now - ts > 60000 then (now - ts) div 60000 else 0)"
  by (simp add: lateMinutes_of_def isLate_iff floor_timeDifference)

lemma scanQR_check_InrD:
  assumes "scanQR_check secret d req now = Inr doc"
  obtains tok c where "qrToken req = Some tok" "jwt_verify tok secret now = Inr c"
    "now \<le> qr_timestamp (payload c) + 5 * 60 * 1000"
    "findOne (session_filter (qr_sessionId (payload c)) (req_user_id req)) (attendances d) = None"
    "sessionId doc = qr_sessionId (payload c)" "studentId doc = Some (req_user_id req)"
    "status doc = present" "lateMinutes doc = 0" "remarks doc = No_remarks"
  using assms
  by (auto simp: scanQR_check_def Let_def new_Attendance_def
      split: option.splits sum.splits jwt_error.splits if_splits)

lemma scanQR_200D:
  assumes "scanQR secret d req now = (d', r)" "http_status r = 200"
  obtains doc where "scanQR_check secret d req now = Inr doc"
    "d' = d\<lparr>attendances := attendances d @ [doc]\<rparr>"
  using assms
  by (auto simp: scanQR_def scanQR_save_def save_new_def reply_def scanQR_check_def Let_def
      split: sum.splits if_splits option.splits jwt_error.splits)

lemma scanQR_duplicate:
  assumes "qrToken req = Some tok" "jwt_verify tok secret now = Inr c"
    "now \<le> qr_timestamp (payload c) + 5 * 60 * 1000"
    "findOne (session_filter (qr_sessionId (payload c)) (req_user_id req)) (attendances d) = Some x"
  shows "scanQR secret d req now = (d, reply 400 False ''Attendance already marked for this session'')"
  using assms by (simp add: scanQR_def scanQR_check_def Let_def)

lemma scanQR_no_write_on_duplicate:
  assumes "qrToken req = Some (Jws c sg)"
    "findOne (session_filter (qr_sessionId (payload c)) (req_user_id req)) (attendances d) = Some x"
  shows "fst (scanQR secret d req now) = d"
  using assms
  by (auto simp: scanQR_def scanQR_check_def Let_def jwt_verify_def
      split: sum.splits jwt_error.splits if_splits)

lemma markAttendance_200D:
  assumes "markAttendance secret d req now = (d', r)" "http_status r = 200"
  obtains tok c doc where "qrToken req = Some tok" "jwt_verify tok secret now = Inr c"
    "now \<le> qr_timestamp (payload c) + 5 * 60 * 1000"
    "findOne (session_filter (qr_sessionId (payload c)) (req_user_id req)) (attendances d) = None"
    "d' = d\<lparr>attendances := attendances d @ [doc]\<rparr>"
    "sessionId doc = qr_sessionId (payload c)" "studentId doc = Some (req_user_id req)"
    "status doc = (if isLate (timeDifference now (qr_timestamp (payload c))) then late else present)"
    "lateMinutes doc = lateMinutes_of (timeDifference now (qr_timestamp (payload c)))"
    "data_status r = Some (status doc)" "data_lateMinutes r = Some (lateMinutes doc)"
proof -
  from assms obtain tok where tok: "qrToken req = Some tok"
    by (cases "qrToken req") (auto simp: markAttendance_def reply_def)
  from assms tok obtain c where c: "jwt_verify tok secret now = Inr c"
    by (cases "jwt_verify tok secret now") (auto simp: markAttendance_def reply_def)
  let ?td = "timeDifference now (qr_timestamp (payload c))"
  from assms tok c have live: "\<not> ?td > 5"
    by (auto simp: markAttendance_def reply_def Let_def split: if_splits)
  from assms tok c live
  have none: "findOne (session_filter (qr_sessionId (payload c)) (req_user_id req)) (attendances d) = None"
    by (auto simp: markAttendance_def reply_def Let_def split: option.splits)
  from assms tok c live none obtain st where st: "students d (req_user_id req) = Some st"
    by (cases "students d (req_user_id req)") (auto simp: markAttendance_def reply_def Let_def)
  from assms tok c live none st obtain t where t: "teachers d (qr_teacherId (payload c)) = Some t"
    by (cases "teachers d (qr_teacherId (payload c))") (auto simp: markAttendance_def reply_def Let_def)
  define doc where "doc = (new_Attendance now)
                \<lparr>studentId := Some (req_user_id req),
                 rollNumber := Some (s_rollNo st),
                 teacherId := qr_teacherId (payload c),
                 institutionCode := qr_institutionCode (payload c),
                 class_name := qr_class (payload c),
                 section_name :=
                   Some (case qr_section (payload c) of
                           None \<Rightarrow> s_section st
                         | Some s \<Rightarrow> if s \<noteq> [] then s else s_section st),
                 subject := qr_subject (payload c),
                 period := (case qr_period (payload c) of
                              None \<Rightarrow> 1
                            | Some n \<Rightarrow> if n \<noteq> 0 then n else 1),
                 sessionId := qr_sessionId (payload c),
                 status := (if isLate ?td then late else present),
                 lateMinutes := lateMinutes_of ?td,
                 date := now,
                 scanTime := now,
                 remarks := (if isLate ?td then Late_by (lateMinutes_of ?td) else On_time)\<rparr>"
  have m: "markAttendance secret d req now =
     (case save_new d doc of
                Inl err \<Rightarrow> (d, reply 500 False ''Failed to mark attendance'')
              | Inr (d', aid) \<Rightarrow>
                  (d', (reply 200 True
                          (if isLate ?td
                           then ''Attendance marked (Late by ''
                                  @ show_nat (nat (lateMinutes_of ?td)) @ '' minutes)''
                           else ''Attendance marked successfully''))
                         \<lparr>data_attendanceId := Some aid,
                          data_status := Some (if isLate ?td then late else present),
                          data_lateMinutes := Some (lateMinutes_of ?td)\<rparr>))"
    using tok c live none st t
    by (simp add: markAttendance_def Let_def doc_def)
  from assms m have v: "validate doc"
    by (auto simp: save_new_def reply_def split: if_splits)
  from assms m v have d': "d' = d\<lparr>attendances := attendances d @ [doc]\<rparr>"
    and r: "r = (reply 200 True
                          (if isLate ?td
                           then ''Attendance marked (Late by ''
                                  @ show_nat (nat (lateMinutes_of ?td)) @ '' minutes)''
                           else ''Attendance marked successfully''))
                         \<lparr>data_attendanceId := Some (length (attendances d)),
                          data_status := Some (if isLate ?td then late else present),
                          data_lateMinutes := Some (lateMinutes_of ?td)\<rparr>"
    by (auto simp: save_new_def)
  have l: "now \<le> qr_timestamp (payload c) + 5 * 60 * 1000"
    using live expired_iff[of now "qr_timestamp (payload c)"] by auto
  show thesis
    by (rule that[OF tok c l none d', of ])
       (simp_all add: doc_def r reply_def)
qed

lemma markAttendance_duplicate:
  assumes "qrToken req = Some tok" "jwt_verify tok secret now = Inr c"
    "now \<le> qr_timestamp (payload c) + 5 * 60 * 1000"
    "findOne (session_filter (qr_sessionId (payload c)) (req_user_id req)) (attendances d) = Some x"
  shows "markAttendance secret d req now = (d, reply 400 False ''Attendance already marked for this class'')"
proof -
  have "\<not> timeDifference now (qr_timestamp (payload c)) > 5"
    using assms(3) expired_iff[of now "qr_timestamp (payload c)"] by auto
  with assms show ?thesis by (simp add: markAttendance_def Let_def)
qed

lemma markAttendance_no_write_on_duplicate:
  assumes "qrToken req = Some (Jws c sg)"
    "findOne (session_filter (qr_sessionId (payload c)) (req_user_id req)) (attendances d) = Some x"
  shows "fst (markAttendance secret d req now) = d"
  using assms
  by (auto simp: markAttendance_def Let_def jwt_verify_def
      split: sum.splits if_splits)

lemma records_for_first:
  assumes "findOne (session_filter sid stu) (attendances d) = None"
    "sessionId doc = sid" "studentId doc = Some stu"
  shows "records_for sid stu (d\<lparr>attendances := attendances d @ [doc]\<rparr>) = 1"
    "findOne (session_filter sid stu) (attendances (d\<lparr>attendances := attendances d @ [doc]\<rparr>))
      = Some (length (attendances d), doc)"
proof -
  have m: "session_filter sid stu doc" using assms(2,3) by (simp add: session_filter_def)
  from assms(1) have "filter (session_filter sid stu) (attendances d) = []"
    by (simp add: findOne_None)
  with m show "records_for sid stu (d\<lparr>attendances := attendances d @ [doc]\<rparr>) = 1"
    by (simp add: records_for_def)
  from findOne_append_None[OF assms(1) m]
  show "findOne (session_filter sid stu) (attendances (d\<lparr>attendances := attendances d @ [doc]\<rparr>))
      = Some (length (attendances d), doc)" by simp
qed

section \<open>Claims\<close>

text \<open>
  C1. Teacher self-attendance follows NONE, CHECKED_IN, CHECKED_OUT for a teacher and a
  calendar day. From a collection with no teacher document of that teacher for the day,
  the first scan appends exactly one document, with the check-in time set and status
  present, and answers with action check_in; the second scan changes that document alone,
  setting check-out time and work hours, and answers with action check_out; every later
  scan of that day is refused with 400, "Attendance already completed for today", and
  leaves the collection as it is. A scan is a request whose token verifies as a teacher
  token of that teacher; the required fields of the first document are present.
\<close>

theorem teacher_state_machine:
  assumes teacher: "teachers d tid = Some t"
    and none: "findOne (teacher_filter tid day) (attendances d) = None"
    and scan1: "teacher_scan_on secret tid day req1 now1"
    and scan2: "teacher_scan_on secret tid day req2 now2"
    and later: "\<forall>(req, now) \<in> set later. teacher_scan_on secret tid day req now"
    and required: "tid \<noteq> []" "token_sessionId req1 \<noteq> []" "t_institutionCode t \<noteq> []"
  shows "\<exists>doc wh d1 d2 r1 r2.
      d1 = d\<lparr>attendances := attendances d @ [doc]\<rparr> \<and>
      scanTeacherQR ties secret d req1 now1 = (d1, r1) \<and>
      http_status r1 = 200 \<and> data_action r1 = Some ''check_in'' \<and>
      teacherId doc = tid \<and> date doc = day \<and> attendanceType doc = Teacher_attendance \<and>
      teacherCheckIn doc = Some now1 \<and> teacherCheckOut doc = None \<and> status doc = present \<and>
      wh = toFixed2 ties (of_int (now2 - now1) / (1000 * 60 * 60)) \<and>
      d2 = d\<lparr>attendances := attendances d @
              [doc\<lparr>teacherCheckOut := Some now2, scanTime := now2, workHours := wh,
                    remarks := Checked_out_worked now2 wh\<rparr>]\<rparr> \<and>
      scanTeacherQR ties secret d1 req2 now2 = (d2, r2) \<and>
      http_status r2 = 200 \<and> data_action r2 = Some ''check_out'' \<and>
      scanTeacherQR_seq ties secret d2 later =
        (d2, replicate (length later)
               (reply 400 False ''Attendance already completed for today''))"
proof -
  from scan1 obtain tok1 c1 where 1: "qrToken req1 = Some tok1"
    "jwt_verify tok1 secret now1 = Inr c1"
    "qr_type (payload c1) = Some ''teacher_attendance''" "qr_teacherId (payload c1) = tid"
    "startOfDay now1 = day" by (rule teacher_scan_onD)
  from scan2 obtain tok2 c2 where 2: "qrToken req2 = Some tok2"
    "jwt_verify tok2 secret now2 = Inr c2"
    "qr_type (payload c2) = Some ''teacher_attendance''" "qr_teacherId (payload c2) = tid"
    "startOfDay now2 = day" by (rule teacher_scan_onD)
  from 1(2) have tc: "tok1 = Jws c1 (HS256 secret c1)"
    by (simp add: verify_InrD)
  with 1(1) required(2) have sid: "qr_sessionId (payload c1) \<noteq> []"
    by (simp add: token_sessionId_def)
  define doc where "doc = (new_Attendance now1)
             \<lparr>teacherId := qr_teacherId (payload c1),
              institutionCode :=
                (if qr_institutionCode (payload c1) \<noteq> [] then qr_institutionCode (payload c1)
                 else t_institutionCode t),
              attendanceType := Teacher_attendance,
              teacherCheckIn := Some now1,
              status := present,
              date := startOfDay now1,
              scanTime := now1,
              sessionId := qr_sessionId (payload c1),
              markedBy := (if req_user_id req1 \<noteq> [] then req_user_id req1
                           else ''qr_scanner''),
              remarks := Checked_in_at now1\<rparr>"
  define d1 where "d1 = d\<lparr>attendances := attendances d @ [doc]\<rparr>"
  define wh where "wh = toFixed2 ties (of_int (now2 - now1) / (1000 * 60 * 60))"
  define doc2 where "doc2 = doc\<lparr>teacherCheckOut := Some now2, scanTime := now2,
                    workHours := wh, remarks := Checked_out_worked now2 wh\<rparr>"
  define d2 where "d2 = d\<lparr>attendances := attendances d @ [doc2]\<rparr>"
  have f: "teacherId doc = tid" "date doc = day" "attendanceType doc = Teacher_attendance"
    "teacherCheckIn doc = Some now1" "teacherCheckOut doc = None" "status doc = present"
    using 1(4,5) by (simp_all add: doc_def new_Attendance_def)
  have v: "validate doc"
    unfolding doc_def validate_check_in using required(1,3) sid 1(4) by auto
  have s1: "scanTeacherQR ties secret d req1 now1 =
     (d1, (reply 200 True (check_mark @ '' Teacher check-in successful!''))
        \<lparr>data_attendanceId := Some (length (attendances d)),
         data_action := Some ''check_in''\<rparr>)"
    unfolding d1_def doc_def
    using 1(4,5) teacher none required(1,3) sid
    by (intro scanTeacherQR_check_in[OF 1(1,2,3)]) auto
  have m: "teacher_filter tid day doc"
    using f by (simp add: teacher_filter_def)
  have fo1: "findOne (teacher_filter tid day) (attendances d1)
      = Some (length (attendances d), doc)"
    unfolding d1_def using findOne_append_None[OF none m] by simp
  have s2: "scanTeacherQR ties secret d1 req2 now2 =
     (d2, (reply 200 False (check_mark @ '' Teacher check-out successful!''))
        \<lparr>data_workHours := Some wh,
         data_attendanceId := Some (length (attendances d)),
         data_action := Some ''check_out''\<rparr>)"
  proof -
    have t1: "teachers d1 (qr_teacherId (payload c2)) = Some t"
      using teacher 2(4) by (simp add: d1_def)
    have fo: "findOne (teacher_filter (qr_teacherId (payload c2)) (startOfDay now2))
        (attendances d1) = Some (length (attendances d), doc)"
      using fo1 2(4,5) by simp
    have u: "d1\<lparr>attendances := (attendances d1)[length (attendances d) := doc2]\<rparr> = d2"
      by (simp add: d1_def d2_def)
    show ?thesis
      using scanTeacherQR_check_out[OF 2(1,2,3) t1 fo f(5) f(4) v, of ties] u
      by (simp add: doc2_def wh_def)
  qed
  have m2: "teacher_filter tid day doc2"
    using f by (simp add: teacher_filter_def doc2_def)
  have fo2: "findOne (teacher_filter tid day) (attendances d2)
      = Some (length (attendances d), doc2)"
    unfolding d2_def using findOne_append_None[OF none m2] by simp
  have t2: "teachers d2 tid = Some t" using teacher by (simp add: d2_def)
  have co: "teacherCheckOut doc2 = Some now2" by (simp add: doc2_def)
  have s3: "scanTeacherQR_seq ties secret d2 later =
        (d2, replicate (length later)
               (reply 400 False ''Attendance already completed for today''))"
    by (rule scanTeacherQR_seq_completed[OF t2 fo2 co later])
  have r1: "http_status ((reply 200 True (check_mark @ '' Teacher check-in successful!''))
        \<lparr>data_attendanceId := Some (length (attendances d)),
         data_action := Some ''check_in''\<rparr>) = 200"
      "data_action ((reply 200 True (check_mark @ '' Teacher check-in successful!''))
        \<lparr>data_attendanceId := Some (length (attendances d)),
         data_action := Some ''check_in''\<rparr>) = Some ''check_in''"
    by (simp_all add: reply_def)
  have r2: "http_status ((reply 200 False (check_mark @ '' Teacher check-out successful!''))
        \<lparr>data_workHours := Some wh,
         data_attendanceId := Some (length (attendances d)),
         data_action := Some ''check_out''\<rparr>) = 200"
      "data_action ((reply 200 False (check_mark @ '' Teacher check-out successful!''))
        \<lparr>data_workHours := Some wh,
         data_attendanceId := Some (length (attendances d)),
         data_action := Some ''check_out''\<rparr>) = Some ''check_out''"
    by (simp_all add: reply_def)
  have e2: "d2 = d\<lparr>attendances := attendances d @
              [doc\<lparr>teacherCheckOut := Some now2, scanTime := now2, workHours := wh,
                    remarks := Checked_out_worked now2 wh\<rparr>]\<rparr>"
    by (simp add: d2_def doc2_def)
  from d1_def s1 r1 f wh_def e2 s2 r2 s3 show ?thesis by blast
qed

theorem teacher_state_machine_witness:
  "teachers db0 ''t1'' = Some teacher0 \<and>
   findOne (teacher_filter ''t1'' midnight) (attendances db0) = None \<and>
   teacher_scan_on secret0 ''t1'' midnight (teacher_scan ''aa01'' nine) nine \<and>
   teacher_scan_on secret0 ''t1'' midnight
     (teacher_scan ''aa02'' (nine + 1800000)) (nine + 1800000) \<and>
   teacher_scan_on secret0 ''t1'' midnight
     (teacher_scan ''aa03'' (nine + 3600000)) (nine + 3600000) \<and>
   ''t1'' \<noteq> [] \<and> token_sessionId (teacher_scan ''aa01'' nine) \<noteq> [] \<and>
   t_institutionCode teacher0 \<noteq> [] \<and>
   (\<exists>d1 d2 r1 r2.
      scanTeacherQR (\<lambda>x. True) secret0 db0 (teacher_scan ''aa01'' nine) nine = (d1, r1) \<and>
      length (attendances d1) = 1 \<and> data_action r1 = Some ''check_in'' \<and>
      scanTeacherQR (\<lambda>x. True) secret0 d1
        (teacher_scan ''aa02'' (nine + 1800000)) (nine + 1800000) = (d2, r2) \<and>
      length (attendances d2) = 1 \<and> data_action r2 = Some ''check_out'' \<and>
      scanTeacherQR_seq (\<lambda>x. True) secret0 d2
        [(teacher_scan ''aa03'' (nine + 3600000), nine + 3600000)] =
        (d2, [reply 400 False ''Attendance already completed for today'']))"
proof -
  have h1: "teachers db0 ''t1'' = Some teacher0"
    by (simp add: db0_def)
  have h2: "findOne (teacher_filter ''t1'' midnight) (attendances db0) = None"
    by (simp add: db0_def findOne_def)
  have h3: "teacher_scan_on secret0 ''t1'' midnight (teacher_scan ''aa01'' nine) nine"
    by (rule teacher_scan_ok) (simp_all add: startOfDay_nine)
  have h4: "teacher_scan_on secret0 ''t1'' midnight
     (teacher_scan ''aa02'' (nine + 1800000)) (nine + 1800000)"
    by (rule teacher_scan_ok) (simp_all add: startOfDay_nine)
  have h5: "\<forall>(req, now) \<in> set [(teacher_scan ''aa03'' (nine + 3600000), nine + 3600000)].
      teacher_scan_on secret0 ''t1'' midnight req now"
    using teacher_scan_ok[of "nine + 3600000" midnight "nine + 3600000" "''aa03''"]
    by (simp add: startOfDay_nine)
  have h6: "''t1'' \<noteq> []" by simp
  have h7: "token_sessionId (teacher_scan ''aa01'' nine) \<noteq> []"
    by (simp add: token_sessionId_def teacher_scan_def jwt_sign_def teacher_payload_def
        Let_def)
  have h8: "t_institutionCode teacher0 \<noteq> []" by (simp add: teacher0_def)
  from teacher_state_machine[OF h1 h2 h3 h4 h5 h6 h7 h8, of "\<lambda>x. True"]
  have "\<exists>d1 d2 r1 r2.
      scanTeacherQR (\<lambda>x. True) secret0 db0 (teacher_scan ''aa01'' nine) nine = (d1, r1) \<and>
      length (attendances d1) = 1 \<and> data_action r1 = Some ''check_in'' \<and>
      scanTeacherQR (\<lambda>x. True) secret0 d1
        (teacher_scan ''aa02'' (nine + 1800000)) (nine + 1800000) = (d2, r2) \<and>
      length (attendances d2) = 1 \<and> data_action r2 = Some ''check_out'' \<and>
      scanTeacherQR_seq (\<lambda>x. True) secret0 d2
        [(teacher_scan ''aa03'' (nine + 3600000), nine + 3600000)] =
        (d2, [reply 400 False ''Attendance already completed for today''])"
    by (auto simp: db0_def)
  moreover have "teacher_scan_on secret0 ''t1'' midnight
     (teacher_scan ''aa03'' (nine + 3600000)) (nine + 3600000)"
    using h5 by simp
  ultimately show ?thesis using h1 h2 h3 h4 h6 h7 h8 by blast
qed

text \<open>
  C7. At a check-out the stored work hours are the time from check-in to check-out in
  hours, rounded to two decimals: they are a whole number of hundredths and differ from
  the exact quotient by at most half a hundredth. Thirty minutes, as from 09:00:00 to
  09:30:00, give 0.50.
\<close>

theorem workHours_two_decimals:
  assumes "teachers d tid = Some t"
    and "findOne (teacher_filter tid (startOfDay now)) (attendances d) = Some (i, e)"
    and "teacherCheckOut e = None" and "teacherCheckIn e = Some checkIn" and "validate e"
    and "teacher_scan_on secret tid (startOfDay now) req now"
  shows "\<exists>d' r w.
      scanTeacherQR ties secret d req now = (d', r) \<and>
      workHours (attendances d' ! i) = w \<and> data_workHours r = Some w \<and>
      \<bar>w - of_int (now - checkIn) / (1000 * 60 * 60)\<bar> \<le> 1 / 200 \<and>
      w * 100 = of_int \<lfloor>w * 100\<rfloor> \<and>
      (now - checkIn = 30 * 60 * 1000 \<longrightarrow> w = 1 / 2)"
proof -
  from assms(6) obtain tok c where *: "qrToken req = Some tok"
    "jwt_verify tok secret now = Inr c"
    "qr_type (payload c) = Some ''teacher_attendance''" "qr_teacherId (payload c) = tid"
    by (rule teacher_scan_onD)
  define w where "w = toFixed2 ties (of_int (now - checkIn) / (1000 * 60 * 60))"
  have t: "teachers d (qr_teacherId (payload c)) = Some t" using assms(1) *(4) by simp
  have fo: "findOne (teacher_filter (qr_teacherId (payload c)) (startOfDay now))
      (attendances d) = Some (i, e)" using assms(2) *(4) by simp
  note s = scanTeacherQR_check_out[OF *(1,2,3) t fo assms(3,4,5), of ties, folded w_def]
  have n: "workHours ((attendances d)[i := e\<lparr>teacherCheckOut := Some now, scanTime := now,
                  workHours := w, remarks := Checked_out_worked now w\<rparr>] ! i) = w"
    using nth_findOne[OF assms(2)] by simp
  have near: "\<bar>w - of_int (now - checkIn) / (1000 * 60 * 60)\<bar> \<le> 1 / 200"
    unfolding w_def by (rule toFixed2_near)
  have hund: "w * 100 = of_int \<lfloor>w * 100\<rfloor>"
    unfolding w_def by (rule toFixed2_hundredths)
  have half: "now - checkIn = 30 * 60 * 1000 \<longrightarrow> w = 1 / 2"
    unfolding w_def using toFixed2_half_hour[of ties] by auto
  show ?thesis
    using s n near hund half by (simp add: reply_def)
qed

theorem workHours_two_decimals_witness:
  "teachers db_checked_in ''t1'' = Some teacher0 \<and>
   findOne (teacher_filter ''t1'' (startOfDay (nine + 1800000))) (attendances db_checked_in)
     = Some (0, checked_in_record) \<and>
   teacherCheckOut checked_in_record = None \<and>
   teacherCheckIn checked_in_record = Some nine \<and>
   validate checked_in_record \<and>
   teacher_scan_on secret0 ''t1'' (startOfDay (nine + 1800000))
     (teacher_scan ''aa02'' (nine + 1800000)) (nine + 1800000) \<and>
   nine + 1800000 - nine = 30 * 60 * 1000 \<and>
   (\<exists>d' r. scanTeacherQR (\<lambda>x. True) secret0 db_checked_in
              (teacher_scan ''aa02'' (nine + 1800000)) (nine + 1800000) = (d', r) \<and>
            workHours (attendances d' ! 0) = 1 / 2 \<and> data_workHours r = Some (1 / 2))"
proof -
  have h1: "teachers db_checked_in ''t1'' = Some teacher0"
    by (rule db_checked_in_teacher)
  have h2: "findOne (teacher_filter ''t1'' (startOfDay (nine + 1800000)))
      (attendances db_checked_in) = Some (0, checked_in_record)"
    by (simp add: startOfDay_nine db_checked_in_found)
  have h6: "teacher_scan_on secret0 ''t1'' (startOfDay (nine + 1800000))
     (teacher_scan ''aa02'' (nine + 1800000)) (nine + 1800000)"
    by (rule teacher_scan_ok) simp_all
  have h7: "nine + 1800000 - nine = 30 * 60 * 1000" by simp
  from workHours_two_decimals[OF h1 h2 checked_in_record_fields h6, of "\<lambda>x. True"] h7
  have "\<exists>d' r. scanTeacherQR (\<lambda>x. True) secret0 db_checked_in
              (teacher_scan ''aa02'' (nine + 1800000)) (nine + 1800000) = (d', r) \<and>
            workHours (attendances d' ! 0) = 1 / 2 \<and> data_workHours r = Some (1 / 2)"
    by auto
  with h1 h2 checked_in_record_fields h6 h7 show ?thesis by blast
qed

text \<open>
  C9. Whenever the teacher scan takes the check-out branch (the first teacher document of
  the teacher dated today or later has a check-in and no check-out), the document is
  stored with check-out time, work hours, scan time and remarks set, the status code is
  200 and the message is the check-out success message, and the \<open>success\<close> flag of the
  body is \<open>False\<close>.
\<close>

theorem check_out_reports_failure:
  assumes "teachers d tid = Some t"
    and "findOne (teacher_filter tid (startOfDay now)) (attendances d) = Some (i, e)"
    and "teacherCheckOut e = None" and "teacherCheckIn e = Some checkIn" and "validate e"
    and "teacher_scan_on secret tid (startOfDay now) req now"
  shows "\<exists>r wh.
      wh = toFixed2 ties (of_int (now - checkIn) / (1000 * 60 * 60)) \<and>
      scanTeacherQR ties secret d req now =
        (d\<lparr>attendances := (attendances d)
             [i := e\<lparr>teacherCheckOut := Some now, scanTime := now, workHours := wh,
                     remarks := Checked_out_worked now wh\<rparr>]\<rparr>, r) \<and>
      http_status r = 200 \<and>
      message r = check_mark @ '' Teacher check-out successful!'' \<and>
      data_action r = Some ''check_out'' \<and>
      success r = False"
proof -
  from assms(6) obtain tok c where *: "qrToken req = Some tok"
    "jwt_verify tok secret now = Inr c"
    "qr_type (payload c) = Some ''teacher_attendance''" "qr_teacherId (payload c) = tid"
    by (rule teacher_scan_onD)
  have t: "teachers d (qr_teacherId (payload c)) = Some t" using assms(1) *(4) by simp
  have fo: "findOne (teacher_filter (qr_teacherId (payload c)) (startOfDay now))
      (attendances d) = Some (i, e)" using assms(2) *(4) by simp
  show ?thesis
    using scanTeacherQR_check_out[OF *(1,2,3) t fo assms(3,4,5), of ties]
    by (simp add: reply_def)
qed

theorem check_out_reports_failure_witness:
  "teachers db_checked_in ''t1'' = Some teacher0 \<and>
   findOne (teacher_filter ''t1'' (startOfDay (nine + 3600000))) (attendances db_checked_in)
     = Some (0, checked_in_record) \<and>
   teacherCheckOut checked_in_record = None \<and>
   teacherCheckIn checked_in_record = Some nine \<and>
   validate checked_in_record \<and>
   teacher_scan_on secret0 ''t1'' (startOfDay (nine + 3600000))
     (teacher_scan ''aa03'' (nine + 3600000)) (nine + 3600000) \<and>
   (\<exists>r. scanTeacherQR (\<lambda>x. False) secret0 db_checked_in
           (teacher_scan ''aa03'' (nine + 3600000)) (nine + 3600000) =
           (db_checked_in\<lparr>attendances :=
              [checked_in_record\<lparr>teacherCheckOut := Some (nine + 3600000),
                 scanTime := nine + 3600000, workHours := 1,
                 remarks := Checked_out_worked (nine + 3600000) 1\<rparr>]\<rparr>, r) \<and>
         http_status r = 200 \<and> success r = False)"
proof -
  have h1: "teachers db_checked_in ''t1'' = Some teacher0"
    by (rule db_checked_in_teacher)
  have h2: "findOne (teacher_filter ''t1'' (startOfDay (nine + 3600000)))
      (attendances db_checked_in) = Some (0, checked_in_record)"
    by (simp add: startOfDay_nine db_checked_in_found)
  have h6: "teacher_scan_on secret0 ''t1'' (startOfDay (nine + 3600000))
     (teacher_scan ''aa03'' (nine + 3600000)) (nine + 3600000)"
    by (rule teacher_scan_ok) simp_all
  have w: "toFixed2 (\<lambda>x. False) (of_int (nine + 3600000 - nine) / (1000 * 60 * 60)) = 1"
    by (simp add: toFixed2_def Let_def)
  from check_out_reports_failure[OF h1 h2 checked_in_record_fields h6, of "\<lambda>x. False"]
  have "\<exists>r. scanTeacherQR (\<lambda>x. False) secret0 db_checked_in
           (teacher_scan ''aa03'' (nine + 3600000)) (nine + 3600000) =
           (db_checked_in\<lparr>attendances :=
              [checked_in_record\<lparr>teacherCheckOut := Some (nine + 3600000),
                 scanTime := nine + 3600000, workHours := 1,
                 remarks := Checked_out_worked (nine + 3600000) 1\<rparr>]\<rparr>, r) \<and>
         http_status r = 200 \<and> success r = False"
    unfolding w by (auto simp: db_checked_in_def)
  with h1 h2 checked_in_record_fields h6 show ?thesis by blast
qed

text \<open>
  C2. Redeeming the same class token twice in sequence, by the same student, leaves
  exactly one document under the (sessionId, studentId) key, in \<^verbatim>\<open>scanQR\<close> and in
  \<^verbatim>\<open>markAttendance\<close> alike: after an accepted first redemption the second one, at any
  time, writes nothing, and while the token still passes verification and the age check
  its answer is the 400 "already marked" response.
\<close>

theorem duplicate_redemption_no_write:
  assumes "redeem = scanQR \<or> redeem = markAttendance"
    and "redeem secret d req now1 = (d1, r1)" and "http_status r1 = 200"
  shows "records_for (token_sessionId req) (req_user_id req) d1 = 1 \<and>
         length (attendances d1) = Suc (length (attendances d)) \<and>
         fst (redeem secret d1 req now2) = d1 \<and>
         (class_token_live secret req now2 \<longrightarrow>
            snd (redeem secret d1 req now2) =
              reply 400 False ''Attendance already marked for this session'' \<or>
            snd (redeem secret d1 req now2) =
              reply 400 False ''Attendance already marked for this class'')"
proof -
  have "\<exists>tok c doc. qrToken req = Some tok \<and> jwt_verify tok secret now1 = Inr c \<and>
      findOne (session_filter (qr_sessionId (payload c)) (req_user_id req)) (attendances d)
        = None \<and>
      d1 = d\<lparr>attendances := attendances d @ [doc]\<rparr> \<and>
      sessionId doc = qr_sessionId (payload c) \<and> studentId doc = Some (req_user_id req)"
    using assms(1)
  proof
    assume "redeem = scanQR"
    with assms(2) have "scanQR secret d req now1 = (d1, r1)" by simp
    from this assms(3) obtain doc where doc: "scanQR_check secret d req now1 = Inr doc"
      "d1 = d\<lparr>attendances := attendances d @ [doc]\<rparr>"
      by (rule scanQR_200D)
    from doc(1) show ?thesis by (rule scanQR_check_InrD) (use doc(2) in blast)
  next
    assume "redeem = markAttendance"
    with assms(2) have "markAttendance secret d req now1 = (d1, r1)" by simp
    from this assms(3) show ?thesis by (rule markAttendance_200D) blast
  qed
  then obtain tok c doc where *: "qrToken req = Some tok" "jwt_verify tok secret now1 = Inr c"
      "findOne (session_filter (qr_sessionId (payload c)) (req_user_id req)) (attendances d)
        = None"
      "d1 = d\<lparr>attendances := attendances d @ [doc]\<rparr>"
      "sessionId doc = qr_sessionId (payload c)" "studentId doc = Some (req_user_id req)"
    by blast
  from *(2) have tok: "tok = Jws c (HS256 secret c)" by (simp add: verify_InrD)
  with *(1) have sid: "token_sessionId req = qr_sessionId (payload c)"
    by (simp add: token_sessionId_def)
  note first = records_for_first[OF *(3,5,6), folded *(4)]
  have one: "records_for (token_sessionId req) (req_user_id req) d1 = 1"
    using first(1) sid by simp
  have len: "length (attendances d1) = Suc (length (attendances d))"
    by (simp add: *(4))
  have req: "qrToken req = Some (Jws c (HS256 secret c))" using *(1) tok by simp
  have same: "fst (redeem secret d1 req now2) = d1"
    using assms(1) scanQR_no_write_on_duplicate[OF req first(2)]
      markAttendance_no_write_on_duplicate[OF req first(2)] by auto
  have dup: "snd (redeem secret d1 req now2) =
              reply 400 False ''Attendance already marked for this session'' \<or>
            snd (redeem secret d1 req now2) =
              reply 400 False ''Attendance already marked for this class''"
    if live: "class_token_live secret req now2"
  proof -
    from live req have v: "jwt_verify (Jws c (HS256 secret c)) secret now2 = Inr c"
      and a: "now2 \<le> qr_timestamp (payload c) + 5 * 60 * 1000"
      by (auto simp: class_token_live_def jwt_verify_def split: sum.splits if_splits)
    from assms(1) scanQR_duplicate[OF req v a first(2)]
      markAttendance_duplicate[OF req v a first(2)]
    show ?thesis by auto
  qed
  from one len same dup show ?thesis by blast
qed

theorem duplicate_redemption_no_write_witness:
  "((scanQR = scanQR \<or> scanQR = markAttendance) \<and>
   scanQR secret0 db0 student_scan (nine + 45000) =
     (db0\<lparr>attendances := [scanned_record]\<rparr>,
      (reply 200 True ''Attendance marked successfully'')\<lparr>data_attendanceId := Some 0\<rparr>) \<and>
   http_status ((reply 200 True ''Attendance marked successfully'')
                  \<lparr>data_attendanceId := Some 0\<rparr>) = 200 \<and>
   class_token_live secret0 student_scan (nine + 46000) \<and>
   records_for ''ab12'' ''s1'' (db0\<lparr>attendances := [scanned_record]\<rparr>) = 1 \<and>
   scanQR secret0 (db0\<lparr>attendances := [scanned_record]\<rparr>) student_scan (nine + 46000) =
     (db0\<lparr>attendances := [scanned_record]\<rparr>,
      reply 400 False ''Attendance already marked for this session'')) \<and>
   ((markAttendance = scanQR \<or> markAttendance = markAttendance) \<and>
   markAttendance secret0 db0 student_scan (nine + 45000) =
     (db0\<lparr>attendances := [marked_record (nine + 45000) present 0 On_time]\<rparr>,
      (reply 200 True ''Attendance marked successfully'')
        \<lparr>data_attendanceId := Some 0, data_status := Some present,
         data_lateMinutes := Some 0\<rparr>) \<and>
   records_for ''ab12'' ''s1''
     (db0\<lparr>attendances := [marked_record (nine + 45000) present 0 On_time]\<rparr>) = 1 \<and>
   markAttendance secret0
       (db0\<lparr>attendances := [marked_record (nine + 45000) present 0 On_time]\<rparr>)
       student_scan (nine + 46000) =
     (db0\<lparr>attendances := [marked_record (nine + 45000) present 0 On_time]\<rparr>,
      reply 400 False ''Attendance already marked for this class''))"
proof -
  have a: "(scanQR = scanQR \<or> scanQR = markAttendance) \<and>
   scanQR secret0 db0 student_scan (nine + 45000) =
     (db0\<lparr>attendances := [scanned_record]\<rparr>,
      (reply 200 True ''Attendance marked successfully'')\<lparr>data_attendanceId := Some 0\<rparr>) \<and>
   http_status ((reply 200 True ''Attendance marked successfully'')
                  \<lparr>data_attendanceId := Some 0\<rparr>) = 200 \<and>
   class_token_live secret0 student_scan (nine + 46000) \<and>
   records_for ''ab12'' ''s1'' (db0\<lparr>attendances := [scanned_record]\<rparr>) = 1 \<and>
   scanQR secret0 (db0\<lparr>attendances := [scanned_record]\<rparr>) student_scan (nine + 46000) =
     (db0\<lparr>attendances := [scanned_record]\<rparr>,
      reply 400 False ''Attendance already marked for this session'')"
  proof -
    have h1: "scanQR = scanQR \<or> scanQR = markAttendance" by simp
    have h2: "scanQR secret0 db0 student_scan (nine + 45000) =
       (db0\<lparr>attendances := [scanned_record]\<rparr>,
        (reply 200 True ''Attendance marked successfully'')\<lparr>data_attendanceId := Some 0\<rparr>)"
      by (simp add: scanQR_def scanQR_check_def scanQR_save_def save_new_def validate_def
          student_scan_def class_token_def verify_sign class_payload_def db0_def findOne_def
          scanned_record_def new_Attendance_def Let_def nine_def)
    have h3: "http_status ((reply 200 True ''Attendance marked successfully'')
                    \<lparr>data_attendanceId := Some 0\<rparr>) = 200"
      by (simp add: reply_def)
    have h4: "class_token_live secret0 student_scan (nine + 46000)"
      by (simp add: class_token_live_def student_scan_def class_token_def verify_sign
          class_payload_def nine_def)
    have t: "token_sessionId student_scan = ''ab12''" "req_user_id student_scan = ''s1''"
      by (simp_all add: token_sessionId_def student_scan_def class_token_def jwt_sign_def
          class_payload_def Let_def)
    have ne: "reply 400 False ''Attendance already marked for this session'' \<noteq>
              reply 400 False ''Attendance already marked for this class''"
      by (simp add: reply_def)
    from duplicate_redemption_no_write[OF h1 h2 h3, of "nine + 46000"] h4 t
    have "records_for ''ab12'' ''s1'' (db0\<lparr>attendances := [scanned_record]\<rparr>) = 1"
      and "fst (scanQR secret0 (db0\<lparr>attendances := [scanned_record]\<rparr>) student_scan
                 (nine + 46000)) = db0\<lparr>attendances := [scanned_record]\<rparr>"
      and "snd (scanQR secret0 (db0\<lparr>attendances := [scanned_record]\<rparr>) student_scan
                 (nine + 46000)) =
            reply 400 False ''Attendance already marked for this session'' \<or>
           snd (scanQR secret0 (db0\<lparr>attendances := [scanned_record]\<rparr>) student_scan
                 (nine + 46000)) =
            reply 400 False ''Attendance already marked for this class''"
      by simp_all
    moreover have "snd (scanQR secret0 (db0\<lparr>attendances := [scanned_record]\<rparr>) student_scan
                 (nine + 46000)) \<noteq> reply 400 False ''Attendance already marked for this class''"
      by (simp add: scanQR_def scanQR_check_def student_scan_def class_token_def verify_sign
          class_payload_def db0_def findOne_def scanned_record_def new_Attendance_def Let_def
          nine_def session_filter_def reply_def)
    ultimately have "records_for ''ab12'' ''s1'' (db0\<lparr>attendances := [scanned_record]\<rparr>) = 1 \<and>
      scanQR secret0 (db0\<lparr>attendances := [scanned_record]\<rparr>) student_scan (nine + 46000) =
       (db0\<lparr>attendances := [scanned_record]\<rparr>,
        reply 400 False ''Attendance already marked for this session'')"
      by (metis prod.collapse)
    with h1 h2 h3 h4 show ?thesis by blast
  qed
  have b: "(markAttendance = scanQR \<or> markAttendance = markAttendance) \<and>
   markAttendance secret0 db0 student_scan (nine + 45000) =
     (db0\<lparr>attendances := [marked_record (nine + 45000) present 0 On_time]\<rparr>,
      (reply 200 True ''Attendance marked successfully'')
        \<lparr>data_attendanceId := Some 0, data_status := Some present,
         data_lateMinutes := Some 0\<rparr>) \<and>
   records_for ''ab12'' ''s1''
     (db0\<lparr>attendances := [marked_record (nine + 45000) present 0 On_time]\<rparr>) = 1 \<and>
   markAttendance secret0
       (db0\<lparr>attendances := [marked_record (nine + 45000) present 0 On_time]\<rparr>)
       student_scan (nine + 46000) =
     (db0\<lparr>attendances := [marked_record (nine + 45000) present 0 On_time]\<rparr>,
      reply 400 False ''Attendance already marked for this class'')"
  proof -
    let ?d1 = "db0\<lparr>attendances := [marked_record (nine + 45000) present 0 On_time]\<rparr>"
    let ?r1 = "(reply 200 True ''Attendance marked successfully'')
          \<lparr>data_attendanceId := Some 0, data_status := Some present,
           data_lateMinutes := Some 0\<rparr>"
    have h4: "class_token_live secret0 student_scan (nine + 46000)"
      by (simp add: class_token_live_def student_scan_def class_token_def verify_sign
          class_payload_def nine_def)
    have t: "token_sessionId student_scan = ''ab12''" "req_user_id student_scan = ''s1''"
      by (simp_all add: token_sessionId_def student_scan_def class_token_def jwt_sign_def
          class_payload_def Let_def)
    have g1: "markAttendance = scanQR \<or> markAttendance = markAttendance" by simp
    have g2: "markAttendance secret0 db0 student_scan (nine + 45000) = (?d1, ?r1)"
      by (simp add: markAttendance_def save_new_def validate_def
          student_scan_def class_token_def verify_sign class_payload_def db0_def findOne_def
          marked_record_def new_Attendance_def Let_def expired_iff isLate_iff
          lateMinutes_of_eq nine_def)
    have g3: "http_status ?r1 = 200" by (simp add: reply_def)
    from duplicate_redemption_no_write[OF g1 g2 g3, of "nine + 46000"] h4 t
    have "records_for ''ab12'' ''s1'' ?d1 = 1"
      and "fst (markAttendance secret0 ?d1 student_scan (nine + 46000)) = ?d1"
      and "snd (markAttendance secret0 ?d1 student_scan (nine + 46000)) =
            reply 400 False ''Attendance already marked for this session'' \<or>
           snd (markAttendance secret0 ?d1 student_scan (nine + 46000)) =
            reply 400 False ''Attendance already marked for this class''"
      by simp_all
    moreover have "snd (markAttendance secret0 ?d1 student_scan (nine + 46000))
        \<noteq> reply 400 False ''Attendance already marked for this session''"
      by (simp add: markAttendance_def student_scan_def class_token_def verify_sign
          class_payload_def db0_def findOne_def marked_record_def new_Attendance_def Let_def
          expired_iff nine_def session_filter_def reply_def)
    ultimately have "records_for ''ab12'' ''s1'' ?d1 = 1 \<and>
      markAttendance secret0 ?d1 student_scan (nine + 46000) =
       (?d1, reply 400 False ''Attendance already marked for this class'')"
      by (metis prod.collapse)
    with g1 g2 show ?thesis by blast
  qed
  from a b show ?thesis by (rule conjI)
qed

text \<open>
  C3. A class redemption that \<^verbatim>\<open>markAttendance\<close> accepts, at \<open>now\<close> for a token stamped
  \<open>qr_timestamp\<close>, is within five minutes of the stamp and stores status late exactly
  when more than 60000 ms have elapsed, and present otherwise; \<open>lateMinutes\<close> is the
  number of whole elapsed minutes for a late document and 0 for a present one. At 60000
  ms the document is present with 0 late minutes, at 60001 ms it is late with 1.
\<close>

theorem lateness_boundary:
  assumes "markAttendance secret d req now = (d', r)" and "http_status r = 200"
    and "qrToken req = Some (Jws c sg)"
    and "elapsed = now - qr_timestamp (payload c)"
  shows "\<exists>doc. attendances d' = attendances d @ [doc] \<and>
      elapsed \<le> 5 * 60 * 1000 \<and>
      (status doc = late \<longleftrightarrow> 60 * 1000 < elapsed) \<and>
      (status doc = present \<longleftrightarrow> elapsed \<le> 60 * 1000) \<and>
      lateMinutes doc = (if 60 * 1000 < elapsed then elapsed div (60 * 1000) else 0) \<and>
      data_status r = Some (status doc) \<and> data_lateMinutes r = Some (lateMinutes doc) \<and>
      (elapsed = 60000 \<longrightarrow> status doc = present \<and> lateMinutes doc = 0) \<and>
      (elapsed = 60001 \<longrightarrow> status doc = late \<and> lateMinutes doc = 1)"
proof -
  from assms(1,2) obtain tok c' doc where *: "qrToken req = Some tok"
    "jwt_verify tok secret now = Inr c'"
    "now \<le> qr_timestamp (payload c') + 5 * 60 * 1000"
    "d' = d\<lparr>attendances := attendances d @ [doc]\<rparr>"
    "status doc =
       (if isLate (timeDifference now (qr_timestamp (payload c'))) then late else present)"
    "lateMinutes doc = lateMinutes_of (timeDifference now (qr_timestamp (payload c')))"
    "data_status r = Some (status doc)" "data_lateMinutes r = Some (lateMinutes doc)"
    by (elim markAttendance_200D) blast
  from *(1,2) assms(3) have c: "c' = c"
    by (auto dest: verify_InrD)
  have st: "status doc = (if 60000 < elapsed then late else present)"
    using *(5) by (simp add: c isLate_iff assms(4))
  have lm: "lateMinutes doc = (if 60000 < elapsed then elapsed div 60000 else 0)"
    using *(6) by (simp add: c lateMinutes_of_eq assms(4))
  have a: "attendances d' = attendances d @ [doc]" by (simp add: *(4))
  have e: "elapsed \<le> 5 * 60 * 1000" using *(3) by (simp add: c assms(4))
  show ?thesis
    using a e st lm *(7,8) by (intro exI[of _ doc]) auto
qed

theorem lateness_boundary_witness:
  "markAttendance secret0 db0 student_scan (nine + 60000) =
     (db0\<lparr>attendances := [marked_record (nine + 60000) present 0 On_time]\<rparr>,
      (reply 200 True ''Attendance marked successfully'')
        \<lparr>data_attendanceId := Some 0, data_status := Some present,
         data_lateMinutes := Some 0\<rparr>) \<and>
   markAttendance secret0 db0 student_scan (nine + 60001) =
     (db0\<lparr>attendances := [marked_record (nine + 60001) late 1 (Late_by 1)]\<rparr>,
      (reply 200 True ''Attendance marked (Late by 1 minutes)'')
        \<lparr>data_attendanceId := Some 0, data_status := Some late,
         data_lateMinutes := Some 1\<rparr>) \<and>
   qrToken student_scan = Some class_token \<and>
   (\<exists>doc. attendances (db0\<lparr>attendances := [marked_record (nine + 60000) present 0 On_time]\<rparr>)
            = attendances db0 @ [doc] \<and> status doc = present \<and> lateMinutes doc = 0) \<and>
   (\<exists>doc. attendances (db0\<lparr>attendances := [marked_record (nine + 60001) late 1 (Late_by 1)]\<rparr>)
            = attendances db0 @ [doc] \<and> status doc = late \<and> lateMinutes doc = 1)"
proof -
  have show_nat_1: "show_nat (Suc 0) = ''1''"
    by (subst show_nat.simps) simp
  have h1: "markAttendance secret0 db0 student_scan (nine + 60000) =
     (db0\<lparr>attendances := [marked_record (nine + 60000) present 0 On_time]\<rparr>,
      (reply 200 True ''Attendance marked successfully'')
        \<lparr>data_attendanceId := Some 0, data_status := Some present,
         data_lateMinutes := Some 0\<rparr>)"
    by (simp add: markAttendance_def save_new_def validate_def
        student_scan_def class_token_def verify_sign class_payload_def db0_def findOne_def
        marked_record_def new_Attendance_def Let_def expired_iff isLate_iff
        lateMinutes_of_eq nine_def)
  have h2: "markAttendance secret0 db0 student_scan (nine + 60001) =
     (db0\<lparr>attendances := [marked_record (nine + 60001) late 1 (Late_by 1)]\<rparr>,
      (reply 200 True ''Attendance marked (Late by 1 minutes)'')
        \<lparr>data_attendanceId := Some 0, data_status := Some late,
         data_lateMinutes := Some 1\<rparr>)"
    by (simp add: markAttendance_def save_new_def validate_def
        student_scan_def class_token_def verify_sign class_payload_def db0_def findOne_def
        marked_record_def new_Attendance_def Let_def expired_iff isLate_iff
        lateMinutes_of_eq show_nat_1 nine_def)
  have h3: "qrToken student_scan = Some class_token" by (simp add: student_scan_def)
  have tok: "class_token = Jws \<lparr>payload = class_payload, iat = nine div 1000,
      exp_claim = nine div 1000 + 5 * 60\<rparr> (HS256 secret0 \<lparr>payload = class_payload,
      iat = nine div 1000, exp_claim = nine div 1000 + 5 * 60\<rparr>)"
    by (simp add: class_token_def jwt_sign_def Let_def)
  have ts: "qr_timestamp class_payload = nine" by (simp add: class_payload_def)
  have s200: "http_status ((reply 200 True m)
        \<lparr>data_attendanceId := Some 0, data_status := Some s,
         data_lateMinutes := Some l\<rparr>) = 200" for m s l
    by (simp add: reply_def)
  from lateness_boundary[OF h1 s200 h3[unfolded tok], of 60000]
  have a: "\<exists>doc. attendances (db0\<lparr>attendances := [marked_record (nine + 60000) present 0 On_time]\<rparr>)
            = attendances db0 @ [doc] \<and> status doc = present \<and> lateMinutes doc = 0"
    by (auto simp: ts)
  from lateness_boundary[OF h2 s200 h3[unfolded tok], of 60001]
  have b: "\<exists>doc. attendances (db0\<lparr>attendances := [marked_record (nine + 60001) late 1 (Late_by 1)]\<rparr>)
            = attendances db0 @ [doc] \<and> status doc = late \<and> lateMinutes doc = 1"
    by (auto simp: ts)
  from h1 h2 h3 a b show ?thesis by blast
qed

text \<open>
  C10. Every class redemption that \<^verbatim>\<open>scanQR\<close> accepts appends one document with status
  present and the default 0 late minutes, whatever the time since issuance; a request it
  does not accept changes nothing. This handler never stores status late.
\<close>

theorem scanQR_always_present:
  assumes "scanQR secret d req now = (d', r)"
  shows "(http_status r = 200 \<and>
          (\<exists>doc. attendances d' = attendances d @ [doc] \<and> status doc = present \<and>
                 lateMinutes doc = 0 \<and> remarks doc = No_remarks)) \<or>
         (http_status r \<noteq> 200 \<and> d' = d)"
proof (cases "http_status r = 200")
  case True
  with assms obtain doc where "scanQR_check secret d req now = Inr doc"
      "d' = d\<lparr>attendances := attendances d @ [doc]\<rparr>"
    by (auto elim: scanQR_200D)
  then have "attendances d' = attendances d @ [doc] \<and> status doc = present \<and>
                 lateMinutes doc = 0 \<and> remarks doc = No_remarks"
    by (elim scanQR_check_InrD) simp
  with True show ?thesis by blast
next
  case False
  with assms have "d' = d"
    by (auto simp: scanQR_def scanQR_save_def save_new_def reply_def
        split: sum.splits if_splits)
  with False show ?thesis by simp
qed

theorem scanQR_always_present_witness:
  "scanQR secret0 db0 student_scan (nine + 90000) =
     (db0\<lparr>attendances := [scanned_record\<lparr>scanTime := nine + 90000,
                                           createdAt := nine + 90000\<rparr>]\<rparr>,
      (reply 200 True ''Attendance marked successfully'')\<lparr>data_attendanceId := Some 0\<rparr>) \<and>
   status (scanned_record\<lparr>scanTime := nine + 90000, createdAt := nine + 90000\<rparr>) = present \<and>
   (\<exists>doc. [scanned_record\<lparr>scanTime := nine + 90000, createdAt := nine + 90000\<rparr>] = [doc] \<and>
          status doc = present \<and> lateMinutes doc = 0)"
proof -
  have h: "scanQR secret0 db0 student_scan (nine + 90000) =
     (db0\<lparr>attendances := [scanned_record\<lparr>scanTime := nine + 90000,
                                           createdAt := nine + 90000\<rparr>]\<rparr>,
      (reply 200 True ''Attendance marked successfully'')\<lparr>data_attendanceId := Some 0\<rparr>)"
    by (simp add: scanQR_def scanQR_check_def scanQR_save_def save_new_def validate_def
        student_scan_def class_token_def verify_sign class_payload_def db0_def findOne_def
        scanned_record_def new_Attendance_def Let_def nine_def startOfDay_def)
  from scanQR_always_present[OF h]
  have "\<exists>doc. [scanned_record\<lparr>scanTime := nine + 90000, createdAt := nine + 90000\<rparr>] = [doc] \<and>
          status doc = present \<and> lateMinutes doc = 0"
    by (auto simp: reply_def db0_def)
  moreover have "status (scanned_record\<lparr>scanTime := nine + 90000,
      createdAt := nine + 90000\<rparr>) = present"
    by (simp add: scanned_record_def new_Attendance_def)
  ultimately show ?thesis using h by blast
qed

text \<open>
  C8. The validity window of an issued token depends on the kind of session alone: every
  token of \<^verbatim>\<open>generateQR\<close> expires 5 minutes, and every token of
  \<^verbatim>\<open>generateTeacherSelfQR\<close> 2 minutes, after the second of its issuance, whatever the
  request, the database, the session id and the secret are.
\<close>

theorem ttl_fixed_by_kind:
  "(data_qrToken (generateQR secret d req sid now) = Some tok \<longrightarrow>
      (\<exists>c. tok = Jws c (HS256 secret c) \<and> qr_timestamp (payload c) = now \<and>
           iat c = now div 1000 \<and> exp_claim c = iat c + 5 * 60 \<and>
           (\<forall>n. (\<exists>c'. jwt_verify tok secret n = Inr c') \<longleftrightarrow>
                n div 1000 < now div 1000 + 5 * 60))) \<and>
   (data_qrToken (generateTeacherSelfQR secret d' req' sid' now') = Some tok' \<longrightarrow>
      (\<exists>c. tok' = Jws c (HS256 secret c) \<and> qr_timestamp (payload c) = now' \<and>
           iat c = now' div 1000 \<and> exp_claim c = iat c + 2 * 60 \<and>
           (\<forall>n. (\<exists>c'. jwt_verify tok' secret n = Inr c') \<longleftrightarrow>
                n div 1000 < now' div 1000 + 2 * 60)))"
proof (intro conjI impI)
  assume "data_qrToken (generateQR secret d req sid now) = Some tok"
  then obtain p where "tok = jwt_sign p secret (5 * 60) now" "qr_timestamp p = now"
    by (auto simp: generateQR_def reply_def Let_def split: if_splits option.splits)
  then show "\<exists>c. tok = Jws c (HS256 secret c) \<and> qr_timestamp (payload c) = now \<and>
           iat c = now div 1000 \<and> exp_claim c = iat c + 5 * 60 \<and>
           (\<forall>n. (\<exists>c'. jwt_verify tok secret n = Inr c') \<longleftrightarrow>
                n div 1000 < now div 1000 + 5 * 60)"
    by (auto simp: jwt_sign_def jwt_verify_def Let_def)
next
  assume "data_qrToken (generateTeacherSelfQR secret d' req' sid' now') = Some tok'"
  then obtain p where "tok' = jwt_sign p secret (2 * 60) now'" "qr_timestamp p = now'"
    by (auto simp: generateTeacherSelfQR_def reply_def Let_def split: option.splits)
  then show "\<exists>c. tok' = Jws c (HS256 secret c) \<and> qr_timestamp (payload c) = now' \<and>
           iat c = now' div 1000 \<and> exp_claim c = iat c + 2 * 60 \<and>
           (\<forall>n. (\<exists>c'. jwt_verify tok' secret n = Inr c') \<longleftrightarrow>
                n div 1000 < now' div 1000 + 2 * 60)"
    by (auto simp: jwt_sign_def jwt_verify_def Let_def)
qed

theorem ttl_fixed_by_kind_witness:
  "data_qrToken (generateQR secret0 db0 class_request ''ab12'' nine) = Some class_token \<and>
   data_qrToken (generateTeacherSelfQR secret0 db0 class_request ''aa01'' nine)
     = qrToken (teacher_scan ''aa01'' nine) \<and>
   (\<exists>c. jwt_verify class_token secret0 (nine + 299999) = Inr c) \<and>
   (\<nexists>c. jwt_verify class_token secret0 (nine + 300000) = Inr c) \<and>
   (\<exists>c. jwt_verify (jwt_sign (teacher_payload ''aa01'' nine) secret0 (2 * 60) nine)
          secret0 (nine + 119999) = Inr c) \<and>
   (\<nexists>c. jwt_verify (jwt_sign (teacher_payload ''aa01'' nine) secret0 (2 * 60) nine)
          secret0 (nine + 120000) = Inr c)"
proof -
  have h1: "data_qrToken (generateQR secret0 db0 class_request ''ab12'' nine)
      = Some class_token"
    by (simp add: generateQR_def db0_def class_request_def teacher0_def reply_def
        class_token_def class_payload_def Let_def)
  have h2: "data_qrToken (generateTeacherSelfQR secret0 db0 class_request ''aa01'' nine)
     = Some (jwt_sign (teacher_payload ''aa01'' nine) secret0 (2 * 60) nine)"
    by (simp add: generateTeacherSelfQR_def db0_def class_request_def teacher0_def
        reply_def teacher_payload_def Let_def)
  have d: "(nine + 299999) div 1000 < nine div 1000 + 5 * 60"
    "\<not> (nine + 300000) div 1000 < nine div 1000 + 5 * 60"
    "(nine + 119999) div 1000 < nine div 1000 + 2 * 60"
    "\<not> (nine + 120000) div 1000 < nine div 1000 + 2 * 60"
    by (simp_all add: nine_def)
  from ttl_fixed_by_kind[of secret0 db0 class_request "''ab12''" nine class_token
      db0 class_request "''aa01''" nine
      "jwt_sign (teacher_payload ''aa01'' nine) secret0 (2 * 60) nine"] h1 h2
  have a: "\<And>n. (\<exists>c'. jwt_verify class_token secret0 n = Inr c') \<longleftrightarrow>
                n div 1000 < nine div 1000 + 5 * 60"
    and b: "\<And>n. (\<exists>c'. jwt_verify (jwt_sign (teacher_payload ''aa01'' nine) secret0
                     (2 * 60) nine) secret0 n = Inr c') \<longleftrightarrow>
                n div 1000 < nine div 1000 + 2 * 60"
    by blast+
  from h1 h2 a[of "nine + 299999"] a[of "nine + 300000"] b[of "nine + 119999"]
    b[of "nine + 120000"] d
  show ?thesis by (simp add: teacher_scan_def)
qed







text \<open>
  C6. The schema declares no unique index on (sessionId, studentId), so the collection
  stores whatever passes validation. Two scans of one token by one student, the second
  looking the key up before the first has saved, are both accepted, and two documents
  hold the key.
\<close>

theorem concurrent_duplicate_scans:
  "scanQR_check secret0 db0 student_scan (nine + 45000) = Inr scanned_record \<and>
   scanQR_check secret0 db0 student_scan (nine + 45001) = Inr second_scanned_record \<and>
   scanQR_save db0 scanned_record =
     (db0\<lparr>attendances := [scanned_record]\<rparr>,
      (reply 200 True ''Attendance marked successfully'')\<lparr>data_attendanceId := Some 0\<rparr>) \<and>
   scanQR_save (db0\<lparr>attendances := [scanned_record]\<rparr>) second_scanned_record =
     (db0\<lparr>attendances := [scanned_record, second_scanned_record]\<rparr>,
      (reply 200 True ''Attendance marked successfully'')\<lparr>data_attendanceId := Some 1\<rparr>) \<and>
   records_for ''ab12'' ''s1''
     (db0\<lparr>attendances := [scanned_record, second_scanned_record]\<rparr>) = 2"
proof -
  have c1: "scanQR_check secret0 db0 student_scan (nine + 45000) = Inr scanned_record"
    by (simp add: scanQR_check_def student_scan_def class_token_def verify_sign
        class_payload_def db0_def findOne_def scanned_record_def new_Attendance_def Let_def
        nine_def)
  have c2: "scanQR_check secret0 db0 student_scan (nine + 45001) = Inr second_scanned_record"
    by (simp add: scanQR_check_def student_scan_def class_token_def verify_sign
        class_payload_def db0_def findOne_def second_scanned_record_def scanned_record_def
        new_Attendance_def Let_def nine_def startOfDay_def)
  have v: "validate scanned_record" "validate second_scanned_record"
    by (simp_all add: validate_def second_scanned_record_def scanned_record_def
        new_Attendance_def)
  have s1: "scanQR_save db0 scanned_record =
     (db0\<lparr>attendances := [scanned_record]\<rparr>,
      (reply 200 True ''Attendance marked successfully'')\<lparr>data_attendanceId := Some 0\<rparr>)"
    using v by (simp add: scanQR_save_def save_new_def db0_def)
  have s2: "scanQR_save (db0\<lparr>attendances := [scanned_record]\<rparr>) second_scanned_record =
     (db0\<lparr>attendances := [scanned_record, second_scanned_record]\<rparr>,
      (reply 200 True ''Attendance marked successfully'')\<lparr>data_attendanceId := Some 1\<rparr>)"
    using v by (simp add: scanQR_save_def save_new_def db0_def)
  have m: "session_filter ''ab12'' ''s1'' scanned_record"
    "session_filter ''ab12'' ''s1'' second_scanned_record"
    by (simp_all add: session_filter_def second_scanned_record_def scanned_record_def
        new_Attendance_def)
  have r: "records_for ''ab12'' ''s1''
      (db0\<lparr>attendances := [scanned_record, second_scanned_record]\<rparr>) = 2"
    using m by (simp add: records_for_def)
  from c1 c2 s1 s2 r show ?thesis by blast
qed

end
